theory Spec2Isabelle
  imports Main "HOL-Library.List_Lexorder" "HOL-Library.Multiset"
begin

section \<open>Python strings\<close>

text \<open>
  A Python \<open>str\<close> is a sequence of Unicode code points. Comparison of two strings
  (\<open><\<close>, used by \<open>sorted\<close>) is lexicographic on the code points, which is the
  order of \<^theory_text>\<open>HOL-Library.List_Lexorder\<close> on \<open>nat list\<close>.
\<close>

type_synonym pystr = "nat list"

definition ascii :: "string \<Rightarrow> pystr" where
  "ascii s = map of_char s"

text \<open>\<open>str(n)\<close> for a non-negative integer: its decimal digits.\<close>

fun str_nat :: "nat \<Rightarrow> pystr" where
  "str_nat n = (if n < 10 then [48 + n] else str_nat (n div 10) @ [48 + n mod 10])"

declare str_nat.simps [simp del]

text \<open>\<open>str.isspace\<close> of one code point (the characters \<open>str.strip()\<close> removes).\<close>

definition isspace :: "nat \<Rightarrow> bool" where
  "isspace c =
     (c \<in> set [9, 10, 11, 12, 13, 28, 29, 30, 31, 32, 133, 160, 5760]
      \<or> (8192 \<le> c \<and> c \<le> 8202)
      \<or> c \<in> set [8232, 8233, 8239, 8287, 12288])"

definition strip :: "pystr \<Rightarrow> pystr" where
  "strip s = rev (dropWhile isspace (rev (dropWhile isspace s)))"

definition startswith :: "pystr \<Rightarrow> pystr \<Rightarrow> bool" where
  "startswith s p = (take (length p) s = p)"

text \<open>\<open>s.split(sep)\<close> for a separator of one code point; never the empty list.\<close>

fun split_on :: "nat \<Rightarrow> pystr \<Rightarrow> pystr list" where
  "split_on sep [] = [[]]"
| "split_on sep (c # cs) =
     (if c = sep then [] # split_on sep cs
      else (case split_on sep cs of
              [] \<Rightarrow> [[c]]
            | f # fs \<Rightarrow> (c # f) # fs))"

text \<open>\<open>sep.join(xs)\<close>.\<close>

fun join :: "pystr \<Rightarrow> pystr list \<Rightarrow> pystr" where
  "join sep [] = []"
| "join sep [x] = x"
| "join sep (x # y # ys) = x @ sep @ join sep (y # ys)"

text \<open>\<open>sub in s\<close> for strings: \<open>sub\<close> occurs in \<open>s\<close> as a contiguous substring.\<close>

fun contains :: "pystr \<Rightarrow> pystr \<Rightarrow> bool" where
  "contains sub [] = (sub = [])"
| "contains sub (c # cs) = (take (length sub) (c # cs) = sub \<or> contains sub cs)"

text \<open>\<open>d.get(k, default)\<close>, on the optional value stored under \<open>k\<close>.\<close>

definition get_or :: "'a option \<Rightarrow> 'a \<Rightarrow> 'a" where
  "get_or v d = (case v of None \<Rightarrow> d | Some x \<Rightarrow> x)"

section \<open>Exceptions\<close>

text \<open>
  The classes of exception the script meets, all subclasses of \<open>Exception\<close>, each with
  its message. Two of them are errors of a call to the provider's API: with
  \<open>ClientError\<close> the provider answered the call with an error (access denied, region
  not enabled, throttling); with \<open>BotoCoreError\<close> botocore could not complete the call
  (endpoint not reachable, timeout, no credentials). The handler of a task names both.
  \<open>sys.exit\<close> is not an exception of this type: it is an outcome of its own below.
\<close>

datatype exn =
    ClientError pystr
  | BotoCoreError pystr
  | KeyError pystr
  | FileNotFoundError pystr
  | OtherError pystr

fun is_ClientError :: "exn \<Rightarrow> bool" where
  "is_ClientError (ClientError m) = True"
| "is_ClientError e = False"

fun is_BotoCoreError :: "exn \<Rightarrow> bool" where
  "is_BotoCoreError (BotoCoreError m) = True"
| "is_BotoCoreError e = False"

fun is_FileNotFoundError :: "exn \<Rightarrow> bool" where
  "is_FileNotFoundError (FileNotFoundError m) = True"
| "is_FileNotFoundError e = False"

section \<open>The registry of resource checks\<close>

text \<open>
  \<open>RESOURCE_CHECKS\<close>: a dict in insertion order, from the resource name to
  \<open>(service client, scope, API call, result key)\<close>.
\<close>

type_synonym config = "pystr \<times> pystr \<times> pystr \<times> pystr"

definition RESOURCE_CHECKS :: "(pystr \<times> config) list" where
  "RESOURCE_CHECKS =
   [(ascii ''IAM Users'', (ascii ''iam'', ascii ''global'', ascii ''list_users'', ascii ''Users'')),
    (ascii ''CloudFront (Enabled)'', (ascii ''cloudfront'', ascii ''global'', ascii ''list_distributions'', ascii ''DistributionList'')),
    (ascii ''WAFv2 ACLs (Global)'', (ascii ''wafv2'', ascii ''global'', ascii ''list_web_acls'', ascii ''WebACLs'')),
    (ascii ''EC2 Instances'', (ascii ''ec2'', ascii ''regional'', ascii ''describe_instances'', ascii ''Reservations'')),
    (ascii ''VPC'', (ascii ''ec2'', ascii ''regional'', ascii ''describe_vpcs'', ascii ''Vpcs'')),
    (ascii ''AMI'', (ascii ''ec2'', ascii ''regional'', ascii ''describe_images'', ascii ''Images'')),
    (ascii ''EBS Snapshots'', (ascii ''ec2'', ascii ''regional'', ascii ''describe_snapshots'', ascii ''Snapshots'')),
    (ascii ''EBS Volumes'', (ascii ''ec2'', ascii ''regional'', ascii ''describe_volumes'', ascii ''Volumes'')),
    (ascii ''EIP'', (ascii ''ec2'', ascii ''regional'', ascii ''describe_addresses'', ascii ''Addresses'')),
    (ascii ''AutoScalingGroups'', (ascii ''autoscaling'', ascii ''regional'', ascii ''describe_auto_scaling_groups'', ascii ''AutoScalingGroups'')),
    (ascii ''KMS Keys (Disabled CMK)'', (ascii ''kms'', ascii ''regional'', ascii ''list_keys'', ascii ''Keys'')),
    (ascii ''ELB (v1)'', (ascii ''elb'', ascii ''regional'', ascii ''describe_load_balancers'', ascii ''LoadBalancerDescriptions'')),
    (ascii ''ELB (v2)'', (ascii ''elbv2'', ascii ''regional'', ascii ''describe_load_balancers'', ascii ''LoadBalancers'')),
    (ascii ''EKS Clusters'', (ascii ''eks'', ascii ''regional'', ascii ''list_clusters'', ascii ''clusters'')),
    (ascii ''Lambda'', (ascii ''lambda'', ascii ''regional'', ascii ''list_functions'', ascii ''Functions'')),
    (ascii ''SecretManager'', (ascii ''secretsmanager'', ascii ''regional'', ascii ''list_secrets'', ascii ''SecretList'')),
    (ascii ''RDS'', (ascii ''rds'', ascii ''regional'', ascii ''describe_db_instances'', ascii ''DBInstances'')),
    (ascii ''ECS Clusters'', (ascii ''ecs'', ascii ''regional'', ascii ''list_clusters'', ascii ''clusterArns'')),
    (ascii ''ECR Repos'', (ascii ''ecr'', ascii ''regional'', ascii ''describe_repositories'', ascii ''repositories'')),
    (ascii ''CodeBuild'', (ascii ''codebuild'', ascii ''regional'', ascii ''list_projects'', ascii ''projects'')),
    (ascii ''WAFv2 ACLs (Regional)'', (ascii ''wafv2'', ascii ''regional'', ascii ''list_web_acls'', ascii ''WebACLs''))]"

section \<open>Task expansion\<close>

text \<open>
  The submission loop of \<open>check_aws_account\<close>: one future per global entry, at
  \<open>us-east-1\<close>, and one per enabled region for a regional entry; an entry of any
  other scope submits nothing. A task is the argument triple of
  \<open>check_single_service\<close>.
\<close>

type_synonym task = "pystr \<times> config \<times> pystr"

fun scope_of :: "pystr \<times> config \<Rightarrow> pystr" where
  "scope_of (resource_name, (service_client, scope, api_call, result_key)) = scope"

fun submit_entry :: "pystr list \<Rightarrow> pystr \<times> config \<Rightarrow> task list" where
  "submit_entry enabled_regions (resource_name, config) =
     (if scope_of (resource_name, config) = ascii ''global''
      then [(resource_name, config, ascii ''us-east-1'')]
      else if scope_of (resource_name, config) = ascii ''regional''
      then map (\<lambda>region. (resource_name, config, region)) enabled_regions
      else [])"

definition submit_all :: "(pystr \<times> config) list \<Rightarrow> pystr list \<Rightarrow> task list" where
  "submit_all registry enabled_regions = concat (map (submit_entry enabled_regions) registry)"

section \<open>Responses of the provider's API\<close>

text \<open>
  A response is a nested key-value document whose shape is fixed by the operation. Only
  the parts the script reads are kept. A field the script reads with \<open>.get\<close> or
  \<open>[...]\<close> is optional: \<open>None\<close> is a key that is absent. A top-level document read
  with a key taken from the registry is a map from keys to values.
\<close>

record iam_user =
  UserName :: "pystr option"
  Arn :: "pystr option"

record distribution =
  DistributionId :: pystr
  Enabled :: "bool option"

record distribution_list =
  Items :: "distribution list option"

record key_entry =
  KeyId :: "pystr option"

record key_metadata =
  KeyManager :: "pystr option"
  KeyState :: "pystr option"

record describe_key_response =
  KeyMetadata :: "key_metadata option"

record ec2_instance =
  InstanceId :: pystr
  StateName :: pystr

record reservation =
  Instances :: "ec2_instance list"

record region_entry =
  RegionName :: "pystr option"

record describe_regions_response =
  Regions :: "region_entry list option"

text \<open>An entry of any other listing: only its presence is read.\<close>

datatype resource = Resource pystr

text \<open>The keyword arguments the script passes to an operation.\<close>

datatype param =
    Filters "(pystr \<times> pystr list) list"
  | Owners "pystr list"
  | OwnerIds "pystr list"
  | Scope pystr

text \<open>
  A session (\<open>boto3.Session\<close>) of one account, as the script uses it.
  \<open>client service region\<close> is \<open>session.client(service, region_name=region)\<close>: the
  exception it raises, if any. Every other field is an operation of the client of
  \<open>service\<close> in \<open>region\<close> (the first two arguments), returning its response or
  raising:
  \<^item> \<open>call_users\<close>, \<open>call_distributions\<close>, \<open>call_listing\<close>: the operation named by
    the third argument, whose response lists users, holds a distribution list, or lists
    any other resource; \<open>call_listing\<close> takes the keyword arguments too;
  \<^item> \<open>list_keys\<close>, \<open>describe_key\<close> (by \<open>KeyId\<close>), \<open>describe_instances\<close>,
    \<open>describe_regions\<close>: the operations of those names.
\<close>

record session =
  client :: "pystr \<Rightarrow> pystr \<Rightarrow> exn option"
  call_users :: "pystr \<Rightarrow> pystr \<Rightarrow> pystr \<Rightarrow> exn + (pystr \<Rightarrow> iam_user list option)"
  call_distributions :: "pystr \<Rightarrow> pystr \<Rightarrow> pystr \<Rightarrow> exn + (pystr \<Rightarrow> distribution_list option)"
  list_keys :: "pystr \<Rightarrow> pystr \<Rightarrow> exn + (pystr \<Rightarrow> key_entry list option)"
  describe_key :: "pystr \<Rightarrow> pystr \<Rightarrow> pystr \<Rightarrow> exn + describe_key_response"
  describe_instances :: "pystr \<Rightarrow> pystr \<Rightarrow> param list \<Rightarrow> exn + (pystr \<Rightarrow> reservation list option)"
  call_listing :: "pystr \<Rightarrow> pystr \<Rightarrow> pystr \<Rightarrow> param list \<Rightarrow> exn + (pystr \<Rightarrow> resource list option)"
  describe_regions :: "pystr \<Rightarrow> pystr \<Rightarrow> param list \<Rightarrow> exn + describe_regions_response"

section \<open>Finding strings\<close>

text \<open>
  The three f-strings of \<open>check_single_service\<close>. The Korean words are written as
  their code points.
\<close>

definition iam_finding :: "nat \<Rightarrow> pystr list \<Rightarrow> pystr" where
  "iam_finding n user_names =
     ascii ''IAM '' @ [49324, 50857, 51088] @ ascii '' '' @ str_nat n @ [47749]
     @ ascii '' '' @ [48156, 44204] @ ascii '': '' @ join (ascii '', '') user_names"

definition global_finding :: "pystr \<Rightarrow> nat \<Rightarrow> pystr" where
  "global_finding resource_name n =
     resource_name @ ascii '' '' @ [47532, 49548, 49828] @ ascii '' '' @ str_nat n @ [44060]
     @ ascii '' '' @ [48156, 44204] @ ascii '' ('' @ [44544, 47196, 48268] @ ascii '')''"

definition regional_finding :: "pystr \<Rightarrow> nat \<Rightarrow> pystr \<Rightarrow> pystr" where
  "regional_finding resource_name n region =
     resource_name @ ascii '' '' @ [47532, 49548, 49828] @ ascii '' '' @ str_nat n @ [44060]
     @ ascii '' '' @ [48156, 44204] @ ascii '' ('' @ [47532, 51204] @ ascii '': '' @ region
     @ ascii '')''"

section \<open>One task: \<open>check_single_service\<close>\<close>

text \<open>
  The result of a task is \<open>Inr None\<close> (nothing found), \<open>Inr (Some s)\<close> (the finding
  \<open>s\<close>) or \<open>Inl e\<close> (the exception \<open>e\<close> leaves the function and is stored in the
  future). Each branch of the \<open>if\<close>/\<open>elif\<close> chain is a definition of its own.
\<close>

text \<open>\<open>[u['UserName'] for u in users]\<close>: \<open>KeyError\<close> at the first user without a name.\<close>

fun user_names_of :: "iam_user list \<Rightarrow> exn + pystr list" where
  "user_names_of [] = Inr []"
| "user_names_of (u # us) =
     (case UserName u of
        None \<Rightarrow> Inl (KeyError (ascii ''UserName''))
      | Some n \<Rightarrow>
          (case user_names_of us of
             Inl e \<Rightarrow> Inl e
           | Inr ns \<Rightarrow> Inr (n # ns)))"

definition iam_users_check ::
  "session \<Rightarrow> pystr \<Rightarrow> pystr \<Rightarrow> pystr \<Rightarrow> pystr \<Rightarrow> exn + pystr option" where
  "iam_users_check session service_client api_call result_key region =
     (case call_users session service_client region api_call of
        Inl e \<Rightarrow> Inl e
      | Inr response \<Rightarrow>
          (let users = filter (\<lambda>u. \<not> contains (ascii ''AWSServiceRole'') (get_or (Arn u) []))
                         (get_or (response result_key) [])
           in if users \<noteq> [] then
                (case user_names_of users of
                   Inl e \<Rightarrow> Inl e
                 | Inr user_names \<Rightarrow> Inr (Some (iam_finding (length users) user_names)))
              else Inr None))"

definition cloudfront_check ::
  "session \<Rightarrow> pystr \<Rightarrow> pystr \<Rightarrow> pystr \<Rightarrow> pystr \<Rightarrow> pystr \<Rightarrow> exn + pystr option" where
  "cloudfront_check session resource_name service_client api_call result_key region =
     (case call_distributions session service_client region api_call of
        Inl e \<Rightarrow> Inl e
      | Inr response \<Rightarrow>
          (let distribution_list = get_or (response result_key) \<lparr>Items = None\<rparr>;
               enabled_dists = filter (\<lambda>d. Enabled d = Some True)
                                 (get_or (Items distribution_list) [])
           in if enabled_dists \<noteq> []
              then Inr (Some (global_finding resource_name (length enabled_dists)))
              else Inr None))"

text \<open>
  The loop over the keys, from the list \<open>disabled_customer_keys\<close> built so far. Only a
  \<open>ClientError\<close> is caught per key; the \<open>KeyError\<close> of a key without \<open>KeyId\<close> and any
  other exception of \<open>describe_key\<close> leave the loop.
\<close>

fun kms_key_loop ::
  "session \<Rightarrow> pystr \<Rightarrow> pystr \<Rightarrow> key_entry list \<Rightarrow> key_entry list \<Rightarrow> exn + key_entry list" where
  "kms_key_loop session service_client region [] disabled_customer_keys =
     Inr disabled_customer_keys"
| "kms_key_loop session service_client region (key # keys) disabled_customer_keys =
     (case KeyId key of
        None \<Rightarrow> Inl (KeyError (ascii ''KeyId''))
      | Some key_id \<Rightarrow>
          (case describe_key session service_client region key_id of
             Inl e \<Rightarrow>
               if is_ClientError e
               then kms_key_loop session service_client region keys disabled_customer_keys
               else Inl e
           | Inr desc_resp \<Rightarrow>
               (let metadata = get_or (KeyMetadata desc_resp)
                                 \<lparr>KeyManager = None, KeyState = None\<rparr>
                in if KeyManager metadata = Some (ascii ''CUSTOMER'')
                      \<and> KeyState metadata = Some (ascii ''Disabled'')
                   then kms_key_loop session service_client region keys
                          (disabled_customer_keys @ [key])
                   else kms_key_loop session service_client region keys
                          disabled_customer_keys)))"

definition kms_check ::
  "session \<Rightarrow> pystr \<Rightarrow> pystr \<Rightarrow> pystr \<Rightarrow> pystr \<Rightarrow> exn + pystr option" where
  "kms_check session resource_name service_client result_key region =
     (case list_keys session service_client region of
        Inl e \<Rightarrow> Inl e
      | Inr list_resp \<Rightarrow>
          (case kms_key_loop session service_client region
                  (get_or (list_resp result_key) []) [] of
             Inl e \<Rightarrow> Inl e
           | Inr disabled_customer_keys \<Rightarrow>
               if disabled_customer_keys \<noteq> []
               then Inr (Some (regional_finding resource_name
                                 (length disabled_customer_keys) region))
               else Inr None))"

text \<open>
  The branches that call an operation with fixed or no keyword arguments and report the
  length of the listing under \<open>result_key\<close>: the two web-ACL checks, the three filtered
  \<open>ec2\<close> listings and the default branch. \<open>finding\<close> is the f-string of the branch.
\<close>

definition listing_check ::
  "session \<Rightarrow> pystr \<Rightarrow> pystr \<Rightarrow> param list \<Rightarrow> pystr \<Rightarrow> pystr \<Rightarrow> (nat \<Rightarrow> pystr)
     \<Rightarrow> exn + pystr option" where
  "listing_check session service_client api_call params result_key region finding =
     (case call_listing session service_client region api_call params of
        Inl e \<Rightarrow> Inl e
      | Inr response \<Rightarrow>
          (let resources = get_or (response result_key) []
           in if resources \<noteq> [] then Inr (Some (finding (length resources))) else Inr None))"

definition ec2_instances_check ::
  "session \<Rightarrow> pystr \<Rightarrow> pystr \<Rightarrow> pystr \<Rightarrow> pystr \<Rightarrow> exn + pystr option" where
  "ec2_instances_check session resource_name service_client result_key region =
     (case describe_instances session service_client region
             [Filters [(ascii ''instance-state-name'',
                        [ascii ''pending'', ascii ''running'', ascii ''stopping'',
                         ascii ''stopped''])]] of
        Inl e \<Rightarrow> Inl e
      | Inr response \<Rightarrow>
          (case response result_key of
             None \<Rightarrow> Inr None
           | Some [] \<Rightarrow> Inr None
           | Some (r # rs) \<Rightarrow>
               Inr (Some (regional_finding resource_name (length (r # rs)) region))))"

text \<open>The body of the \<open>try\<close>.\<close>

definition service_body :: "session \<Rightarrow> pystr \<Rightarrow> config \<Rightarrow> pystr \<Rightarrow> exn + pystr option" where
  "service_body session resource_name config region =
     (case config of (service_client, scope, api_call, result_key) \<Rightarrow>
        (case client session service_client region of
           Some e \<Rightarrow> Inl e
         | None \<Rightarrow>
             if resource_name = ascii ''IAM Users''
             then iam_users_check session service_client api_call result_key region
             else if resource_name = ascii ''CloudFront (Enabled)''
             then cloudfront_check session resource_name service_client api_call result_key region
             else if resource_name = ascii ''KMS Keys (Disabled CMK)''
             then kms_check session resource_name service_client result_key region
             else if resource_name = ascii ''WAFv2 ACLs (Global)''
             then listing_check session service_client (ascii ''list_web_acls'')
                    [Scope (ascii ''CLOUDFRONT'')] result_key region
                    (global_finding resource_name)
             else if resource_name = ascii ''WAFv2 ACLs (Regional)''
             then listing_check session service_client (ascii ''list_web_acls'')
                    [Scope (ascii ''REGIONAL'')] result_key region
                    (\<lambda>n. regional_finding resource_name n region)
             else if resource_name = ascii ''AMI''
             then listing_check session service_client (ascii ''describe_images'')
                    [Owners [ascii ''self'']] result_key region
                    (\<lambda>n. regional_finding resource_name n region)
             else if resource_name = ascii ''EBS Snapshots''
             then listing_check session service_client (ascii ''describe_snapshots'')
                    [OwnerIds [ascii ''self'']] result_key region
                    (\<lambda>n. regional_finding resource_name n region)
             else if resource_name = ascii ''VPC''
             then listing_check session service_client (ascii ''describe_vpcs'')
                    [Filters [(ascii ''is-default'', [ascii ''false''])]] result_key region
                    (\<lambda>n. regional_finding resource_name n region)
             else if resource_name = ascii ''EC2 Instances''
             then ec2_instances_check session resource_name service_client result_key region
             else listing_check session service_client api_call [] result_key region
                    (\<lambda>n. regional_finding resource_name n region)))"

text \<open>
  \<open>except (ClientError, BotoCoreError): pass\<close>, then \<open>return None\<close>; every other
  exception leaves the function.
\<close>

definition check_single_service ::
  "session \<Rightarrow> pystr \<Rightarrow> config \<Rightarrow> pystr \<Rightarrow> exn + pystr option" where
  "check_single_service session resource_name config region =
     (case service_body session resource_name config region of
        Inl e \<Rightarrow> if is_ClientError e \<or> is_BotoCoreError e then Inr None else Inl e
      | Inr result \<Rightarrow> Inr result)"

section \<open>Console output and process outcomes\<close>

text \<open>
  What the script prints, one constructor per \<open>print\<close> statement, with the values the
  line shows. The wording of a line is not modelled; a finding is, as the string it is.
\<close>

datatype msg =
    MsgScriptStart
  | MsgFileNotFound pystr
  | MsgBadLine pystr nat
  | MsgNoAccounts
  | MsgTotal nat
  | MsgAccountStart pystr pystr
  | MsgSessionError exn
  | MsgRegionError exn
  | MsgRegionHint
  | MsgAccountAborted pystr
  | MsgTaskError exn
  | MsgWarningHeader
  | MsgWarning pystr
  | MsgClean
  | MsgAccountDone pystr

text \<open>
  How a call at the level of the process ends: it returns, an exception leaves it, or
  \<open>sys.exit(n)\<close> ends the process.
\<close>

datatype 'a outcome = Return 'a | Raise exn | Exit nat

text \<open>
  The exit status of the process when \<open>main\<close> ends so: 0 after a normal return, the
  argument of \<open>sys.exit\<close>, 1 after an uncaught exception.
\<close>

fun exit_status :: "'a outcome \<Rightarrow> nat" where
  "exit_status (Return x) = 0"
| "exit_status (Raise e) = 1"
| "exit_status (Exit n) = n"

section \<open>The credential loader: \<open>parse_credentials\<close>\<close>

type_synonym credential = "pystr \<times> pystr \<times> pystr"

text \<open>The f-string of the display name: the Korean word for account, a space, \<open>n\<close>.\<close>

definition account_label :: "nat \<Rightarrow> pystr" where
  "account_label n = [44228, 51221] @ ascii '' '' @ str_nat n"

text \<open>
  The loop over \<open>enumerate(f)\<close>, from the line of index \<open>i\<close> on: the records appended
  and the warnings printed, both in the order of the lines. The tab is code point 9.
\<close>

fun parse_lines :: "pystr \<Rightarrow> nat \<Rightarrow> pystr list \<Rightarrow> credential list \<times> msg list" where
  "parse_lines file_path i [] = ([], [])"
| "parse_lines file_path i (raw # rest) =
     (let line = strip raw;
          (credentials, printed) = parse_lines file_path (i + 1) rest
      in if line = [] \<or> startswith line (ascii ''#'') then (credentials, printed)
         else (case split_on 9 line of
                 [access_key, secret_key] \<Rightarrow>
                   ((access_key, secret_key, account_label (i + 1)) # credentials, printed)
               | _ \<Rightarrow> (credentials, MsgBadLine file_path (i + 1) # printed)))"

text \<open>
  The file is \<open>Inr lines\<close>, the lines its iteration yields, or \<open>Inl e\<close> when \<open>open\<close>
  raises \<open>e\<close>. Only \<open>FileNotFoundError\<close> is caught; it ends the process with status 1.
\<close>

definition parse_credentials ::
  "pystr \<Rightarrow> exn + pystr list \<Rightarrow> msg list \<times> credential list outcome" where
  "parse_credentials file_path file =
     (case file of
        Inl e \<Rightarrow>
          if is_FileNotFoundError e then ([MsgFileNotFound file_path], Exit 1)
          else ([], Raise e)
      | Inr lines \<Rightarrow>
          (case parse_lines file_path 0 lines of
             (credentials, printed) \<Rightarrow> (printed, Return credentials)))"

section \<open>Region discovery: \<open>get_enabled_regions\<close>\<close>

text \<open>\<open>[r['RegionName'] for r in ...]\<close>: \<open>KeyError\<close> at the first entry without a name.\<close>

fun region_names :: "region_entry list \<Rightarrow> exn + pystr list" where
  "region_names [] = Inr []"
| "region_names (r # rs) =
     (case RegionName r of
        None \<Rightarrow> Inl (KeyError (ascii ''RegionName''))
      | Some n \<Rightarrow>
          (case region_names rs of
             Inl e \<Rightarrow> Inl e
           | Inr ns \<Rightarrow> Inr (n # ns)))"

text \<open>\<open>except ClientError\<close>: two lines are printed and \<open>None\<close> is returned.\<close>

definition regions_except :: "exn \<Rightarrow> msg list \<times> (exn + pystr list option)" where
  "regions_except e =
     (if is_ClientError e then ([MsgRegionError e, MsgRegionHint], Inr None)
      else ([], Inl e))"

definition get_enabled_regions :: "session \<Rightarrow> msg list \<times> (exn + pystr list option)" where
  "get_enabled_regions session =
     (case client session (ascii ''ec2'') (ascii ''us-east-1'') of
        Some e \<Rightarrow> regions_except e
      | None \<Rightarrow>
          (case describe_regions session (ascii ''ec2'') (ascii ''us-east-1'')
                  [Filters [(ascii ''opt-in-status'',
                             [ascii ''opted-in'', ascii ''opt-in-not-required''])]] of
             Inl e \<Rightarrow> regions_except e
           | Inr regions \<Rightarrow>
               (case Regions regions of
                  None \<Rightarrow> regions_except (KeyError (ascii ''Regions''))
                | Some entries \<Rightarrow>
                    (case region_names entries of
                       Inl e \<Rightarrow> regions_except e
                     | Inr names \<Rightarrow> ([], Inr (Some names))))))"

section \<open>Collecting the results and the report\<close>

type_synonym task_result = "exn + pystr option"

text \<open>
  The loop over \<open>as_completed(futures)\<close>, on the results in the order the tasks
  complete: a truthy result (a string that is not empty) is appended to
  \<open>warnings_found\<close>, an exception is printed, both in the order of arrival.
\<close>

fun collect :: "task_result list \<Rightarrow> pystr list \<times> msg list" where
  "collect [] = ([], [])"
| "collect (future # futures) =
     (let (warnings_found, printed) = collect futures
      in case future of
           Inl e \<Rightarrow> (warnings_found, MsgTaskError e # printed)
         | Inr None \<Rightarrow> (warnings_found, printed)
         | Inr (Some result_warning) \<Rightarrow>
             if result_warning \<noteq> [] then (result_warning # warnings_found, printed)
             else (warnings_found, printed))"

text \<open>
  \<open>sorted(list(set(warnings_found)))\<close>: the distinct strings in increasing order. The
  order in which \<open>list(set(...))\<close> enumerates the set does not show in the sorted list
  (lemma \<open>report_any_enumeration\<close>).
\<close>

definition report :: "pystr list \<Rightarrow> pystr list" where
  "report warnings_found = sort (remdups warnings_found)"

text \<open>Python's \<open><\<close> on two strings, written out.\<close>

fun str_less :: "pystr \<Rightarrow> pystr \<Rightarrow> bool" where
  "str_less [] [] = False"
| "str_less [] (y # ys) = True"
| "str_less (x # xs) [] = False"
| "str_less (x # xs) (y # ys) = (x < y \<or> (x = y \<and> str_less xs ys))"

section \<open>One account and the whole run\<close>

text \<open>
  What the script does not decide: the credential file, the session
  \<open>boto3.Session\<close> builds for a key pair (or the exception it raises), and the order
  in which the thread pool completes the submitted tasks (\<open>as_completed\<close>, which yields
  every future once: a permutation of its argument).
\<close>

record world =
  accesskey_file :: "exn + pystr list"
  boto3_Session :: "pystr \<Rightarrow> pystr \<Rightarrow> exn + session"
  as_completed :: "task_result list \<Rightarrow> task_result list"

fun run_task :: "session \<Rightarrow> task \<Rightarrow> task_result" where
  "run_task session (resource_name, config, region) =
     check_single_service session resource_name config region"

text \<open>The lines printed once the pool is done.\<close>

definition print_report :: "pystr list \<Rightarrow> msg list" where
  "print_report warnings_found =
     (if warnings_found \<noteq> [] then MsgWarningHeader # map MsgWarning (report warnings_found)
      else [MsgClean])"

definition check_aws_account ::
  "world \<Rightarrow> pystr \<Rightarrow> pystr \<Rightarrow> pystr \<Rightarrow> msg list \<times> (exn + unit)" where
  "check_aws_account world access_key secret_key account_name =
     (case boto3_Session world access_key secret_key of
        Inl e \<Rightarrow>
          ([MsgAccountStart account_name (take 5 access_key), MsgSessionError e], Inr ())
      | Inr session \<Rightarrow>
          (case get_enabled_regions session of
             (printed, Inl e) \<Rightarrow>
               (MsgAccountStart account_name (take 5 access_key) # printed, Inl e)
           | (printed, Inr None) \<Rightarrow>
               (MsgAccountStart account_name (take 5 access_key) # printed
                  @ [MsgAccountAborted account_name], Inr ())
           | (printed, Inr (Some [])) \<Rightarrow>
               (MsgAccountStart account_name (take 5 access_key) # printed
                  @ [MsgAccountAborted account_name], Inr ())
           | (printed, Inr (Some (r # rs))) \<Rightarrow>
               (let futures = map (run_task session) (submit_all RESOURCE_CHECKS (r # rs));
                    (warnings_found, diagnostics) = collect (as_completed world futures)
                in (MsgAccountStart account_name (take 5 access_key) # printed
                      @ diagnostics @ print_report warnings_found
                      @ [MsgAccountDone account_name], Inr ()))))"

text \<open>The loop of \<open>main\<close> over the accounts: an exception that leaves one scan ends it.\<close>

fun scan_accounts :: "world \<Rightarrow> credential list \<Rightarrow> msg list \<times> (exn + unit)" where
  "scan_accounts world [] = ([], Inr ())"
| "scan_accounts world ((access_key, secret_key, account_name) # creds) =
     (case check_aws_account world access_key secret_key account_name of
        (printed, Inl e) \<Rightarrow> (printed, Inl e)
      | (printed, Inr u) \<Rightarrow>
          (case scan_accounts world creds of
             (printed', result) \<Rightarrow> (printed @ printed', result)))"

definition main :: "world \<Rightarrow> msg list \<times> unit outcome" where
  "main world =
     (case parse_credentials (ascii ''accesskey.txt'') (accesskey_file world) of
        (printed, Exit n) \<Rightarrow> (MsgScriptStart # printed, Exit n)
      | (printed, Raise e) \<Rightarrow> (MsgScriptStart # printed, Raise e)
      | (printed, Return creds) \<Rightarrow>
          if creds = [] then (MsgScriptStart # printed @ [MsgNoAccounts], Return ())
          else (case scan_accounts world creds of
                  (printed', Inl e) \<Rightarrow>
                    (MsgScriptStart # printed @ [MsgTotal (length creds)] @ printed', Raise e)
                | (printed', Inr u) \<Rightarrow>
                    (MsgScriptStart # printed @ [MsgTotal (length creds)] @ printed',
                     Return ())))"

text \<open>The accounts whose scan was started, read off the output.\<close>

fun accounts_started :: "msg list \<Rightarrow> pystr list" where
  "accounts_started [] = []"
| "accounts_started (MsgAccountStart account_name key # ms) = account_name # accounts_started ms"
| "accounts_started (m # ms) = accounts_started ms"

text \<open>The finding lines of a report, read off the output.\<close>

fun warnings_printed :: "msg list \<Rightarrow> pystr list" where
  "warnings_printed [] = []"
| "warnings_printed (MsgWarning w # ms) = w # warnings_printed ms"
| "warnings_printed (m # ms) = warnings_printed ms"

section \<open>The listing call of a task\<close>

text \<open>
  The exception, if any, raised by the first call of the provider's API that a task makes
  once its client is built: the operation each branch of \<open>check_single_service\<close> calls
  first, with the keyword arguments of that branch.
\<close>

definition raised :: "exn + 'a \<Rightarrow> exn option" where
  "raised r = (case r of Inl e \<Rightarrow> Some e | Inr x \<Rightarrow> None)"

fun listing_call :: "session \<Rightarrow> task \<Rightarrow> exn option" where
  "listing_call session (resource_name, (service_client, scope, api_call, result_key), region) =
     (if resource_name = ascii ''IAM Users''
      then raised (call_users session service_client region api_call)
      else if resource_name = ascii ''CloudFront (Enabled)''
      then raised (call_distributions session service_client region api_call)
      else if resource_name = ascii ''KMS Keys (Disabled CMK)''
      then raised (list_keys session service_client region)
      else if resource_name = ascii ''WAFv2 ACLs (Global)''
      then raised (call_listing session service_client region (ascii ''list_web_acls'')
                     [Scope (ascii ''CLOUDFRONT'')])
      else if resource_name = ascii ''WAFv2 ACLs (Regional)''
      then raised (call_listing session service_client region (ascii ''list_web_acls'')
                     [Scope (ascii ''REGIONAL'')])
      else if resource_name = ascii ''AMI''
      then raised (call_listing session service_client region (ascii ''describe_images'')
                     [Owners [ascii ''self'']])
      else if resource_name = ascii ''EBS Snapshots''
      then raised (call_listing session service_client region (ascii ''describe_snapshots'')
                     [OwnerIds [ascii ''self'']])
      else if resource_name = ascii ''VPC''
      then raised (call_listing session service_client region (ascii ''describe_vpcs'')
                     [Filters [(ascii ''is-default'', [ascii ''false''])]])
      else if resource_name = ascii ''EC2 Instances''
      then raised (describe_instances session service_client region
                     [Filters [(ascii ''instance-state-name'',
                                [ascii ''pending'', ascii ''running'', ascii ''stopping'',
                                 ascii ''stopped''])]])
      else raised (call_listing session service_client region api_call []))"

section \<open>Example sessions\<close>

text \<open>
  An account with nothing in it and one enabled region: every client is built, every
  listing is empty. The examples below change single operations of it.
\<close>

definition quiet_session :: session where
  "quiet_session =
     \<lparr>client = (\<lambda>service region. None),
      call_users = (\<lambda>service region api. Inr (\<lambda>k. None)),
      call_distributions = (\<lambda>service region api. Inr (\<lambda>k. None)),
      list_keys = (\<lambda>service region. Inr (\<lambda>k. None)),
      describe_key = (\<lambda>service region key_id. Inr \<lparr>KeyMetadata = None\<rparr>),
      describe_instances = (\<lambda>service region params. Inr (\<lambda>k. None)),
      call_listing = (\<lambda>service region api params. Inr (\<lambda>k. None)),
      describe_regions = (\<lambda>service region params.
        Inr \<lparr>Regions = Some [\<lparr>RegionName = Some (ascii ''us-east-1'')\<rparr>]\<rparr>)\<rparr>"

text \<open>
  An account where the user listing holds a user document without \<open>UserName\<close> (so the
  task raises \<open>KeyError\<close>), \<open>describe_instances\<close> is denied, and one non-default
  network exists.
\<close>

definition faulty_session :: session where
  "faulty_session =
     quiet_session
       \<lparr>call_users := (\<lambda>service region api.
          Inr (\<lambda>k. if k = ascii ''Users''
                     then Some [\<lparr>UserName = None, Arn = Some (ascii ''arn:aws:iam::1:user/x'')\<rparr>]
                     else None)),
        describe_instances := (\<lambda>service region params.
          Inl (ClientError (ascii ''UnauthorizedOperation''))),
        call_listing := (\<lambda>service region api params.
          Inr (\<lambda>k. if api = ascii ''describe_vpcs'' \<and> k = ascii ''Vpcs''
                     then Some [Resource (ascii ''vpc-1'')] else None))\<rparr>"

definition faulty_world :: world where
  "faulty_world =
     \<lparr>accesskey_file = Inr [ascii ''AKIA1'' @ [9] @ ascii ''secret1''],
      boto3_Session = (\<lambda>access_key secret_key. Inr faulty_session),
      as_completed = rev\<rparr>"

text \<open>A task result that, when it is a finding, is a string that is not empty.\<close>

definition truthy_finding :: "task_result \<Rightarrow> bool" where
  "truthy_finding r = (case r of Inl e \<Rightarrow> True | Inr None \<Rightarrow> True | Inr (Some w) \<Rightarrow> w \<noteq> [])"

text \<open>
  Five task results in one order of arrival: one finding arrives twice, one task found
  nothing, one raised.
\<close>

definition demo_results :: "task_result list" where
  "demo_results =
     [Inr (Some (regional_finding (ascii ''VPC'') 1 (ascii ''us-east-1''))),
      Inr None,
      Inl (KeyError (ascii ''UserName'')),
      Inr (Some (global_finding (ascii ''CloudFront (Enabled)'') 2)),
      Inr (Some (regional_finding (ascii ''VPC'') 1 (ascii ''us-east-1'')))]"

section \<open>The managed-key filter, as the specification words it\<close>

text \<open>
  A key is to be counted when its metadata, looked up by its \<open>KeyId\<close>, reports the
  manager \<open>CUSTOMER\<close> and the state \<open>Disabled\<close>. This definition follows the words of
  the specification; \<open>kms_key_loop\<close> above follows the code.
\<close>

definition reports_disabled_customer_key ::
  "session \<Rightarrow> pystr \<Rightarrow> pystr \<Rightarrow> key_entry \<Rightarrow> bool" where
  "reports_disabled_customer_key session service_client region key =
     (case KeyId key of
        None \<Rightarrow> False
      | Some key_id \<Rightarrow>
          (case describe_key session service_client region key_id of
             Inl e \<Rightarrow> False
           | Inr desc_resp \<Rightarrow>
               (case KeyMetadata desc_resp of
                  None \<Rightarrow> False
                | Some metadata \<Rightarrow>
                    KeyManager metadata = Some (ascii ''CUSTOMER'')
                    \<and> KeyState metadata = Some (ascii ''Disabled''))))"

section \<open>Example accounts for the filters\<close>

text \<open>
  Five keys: a disabled customer key, a customer key pending deletion, a disabled key
  managed by the provider, a key whose lookup is denied, an enabled customer key.
\<close>

definition key_metadata_of :: "pystr \<Rightarrow> exn + describe_key_response" where
  "key_metadata_of key_id =
     (if key_id = ascii ''k1''
      then Inr \<lparr>KeyMetadata = Some \<lparr>KeyManager = Some (ascii ''CUSTOMER''),
                                      KeyState = Some (ascii ''Disabled'')\<rparr>\<rparr>
      else if key_id = ascii ''k2''
      then Inr \<lparr>KeyMetadata = Some \<lparr>KeyManager = Some (ascii ''CUSTOMER''),
                                      KeyState = Some (ascii ''PendingDeletion'')\<rparr>\<rparr>
      else if key_id = ascii ''k3''
      then Inr \<lparr>KeyMetadata = Some \<lparr>KeyManager = Some (ascii ''AWS''),
                                      KeyState = Some (ascii ''Disabled'')\<rparr>\<rparr>
      else if key_id = ascii ''k4''
      then Inl (ClientError (ascii ''AccessDeniedException''))
      else Inr \<lparr>KeyMetadata = Some \<lparr>KeyManager = Some (ascii ''CUSTOMER''),
                                      KeyState = Some (ascii ''Enabled'')\<rparr>\<rparr>)"



text \<open>
  Two keys: the lookup of the first ends in a read timeout of the client library (a
  \<open>BotoCoreError\<close>), the second is a disabled customer key.
\<close>

definition kms_timeout_session :: session where
  "kms_timeout_session =
     quiet_session
       \<lparr>list_keys := (\<lambda>service region.
          Inr (\<lambda>k. if k = ascii ''Keys''
                     then Some [\<lparr>KeyId = Some (ascii ''k0'')\<rparr>, \<lparr>KeyId = Some (ascii ''k1'')\<rparr>]
                     else None)),
        describe_key := (\<lambda>service region key_id.
          if key_id = ascii ''k0'' then Inl (BotoCoreError (ascii ''ReadTimeoutError''))
          else key_metadata_of key_id)\<rparr>"

text \<open>Three users, the second one service-linked.\<close>

definition three_users :: "iam_user list" where
  "three_users =
     [\<lparr>UserName = Some (ascii ''alice''), Arn = Some (ascii ''arn:aws:iam::1:user/alice'')\<rparr>,
      \<lparr>UserName = Some (ascii ''svc''),
       Arn = Some (ascii ''arn:aws:iam::1:user/aws-service-role/AWSServiceRoleForX'')\<rparr>,
      \<lparr>UserName = Some (ascii ''bob''), Arn = Some (ascii ''arn:aws:iam::1:user/bob'')\<rparr>]"

definition iam_session :: session where
  "iam_session =
     quiet_session
       \<lparr>call_users := (\<lambda>service region api.
          Inr (\<lambda>k. if k = ascii ''Users'' then Some three_users else None))\<rparr>"

text \<open>
  \<open>describe_instances\<close> as the provider documents it, on the reservations of a region:
  a filter \<open>instance-state-name\<close> keeps, in every reservation, the instances whose state
  is one of the filter's values, and a reservation left without instances is not
  returned. A reservation holds the instances of one launch request.
\<close>

fun state_values :: "param list \<Rightarrow> pystr list option" where
  "state_values [] = None"
| "state_values (Filters fs # ps) =
     (case map_of fs (ascii ''instance-state-name'') of
        None \<Rightarrow> state_values ps
      | Some vs \<Rightarrow> Some vs)"
| "state_values (p # ps) = state_values ps"

definition provider_describe_instances :: "reservation list \<Rightarrow> param list \<Rightarrow> reservation list" where
  "provider_describe_instances reservations params =
     (case state_values params of
        None \<Rightarrow> reservations
      | Some vs \<Rightarrow>
          filter (\<lambda>r. Instances r \<noteq> [])
            (map (\<lambda>r. \<lparr>Instances = filter (\<lambda>i. StateName i \<in> set vs) (Instances r)\<rparr>)
               reservations))"

text \<open>
  One launch request started two instances in \<open>us-east-1\<close>, both running; an older
  instance there is terminated. No other region holds an instance.
\<close>

definition one_launch_of_two :: "reservation list" where
  "one_launch_of_two =
     [\<lparr>Instances = [\<lparr>InstanceId = ascii ''i-1'', StateName = ascii ''running''\<rparr>,
                     \<lparr>InstanceId = ascii ''i-2'', StateName = ascii ''running''\<rparr>]\<rparr>,
      \<lparr>Instances = [\<lparr>InstanceId = ascii ''i-0'', StateName = ascii ''terminated''\<rparr>]\<rparr>]"

definition ec2_session :: session where
  "ec2_session =
     quiet_session
       \<lparr>describe_instances := (\<lambda>service region params.
          Inr (\<lambda>k. if k = ascii ''Reservations''
                     then Some (provider_describe_instances
                                  (if region = ascii ''us-east-1'' then one_launch_of_two else [])
                                  params)
                     else None))\<rparr>"

text \<open>
  An account whose region listing ends in a connection error of the client library, and a
  world of two accounts of which the first is that one.
\<close>

definition unreachable_session :: session where
  "unreachable_session =
     quiet_session
       \<lparr>describe_regions := (\<lambda>service region params.
          Inl (BotoCoreError (ascii ''EndpointConnectionError'')))\<rparr>"

definition denied_session :: session where
  "denied_session =
     quiet_session
       \<lparr>describe_regions := (\<lambda>service region params.
          Inl (ClientError (ascii ''AuthFailure'')))\<rparr>"

definition two_account_file :: "pystr list" where
  "two_account_file =
     [ascii ''AKIA1'' @ [9] @ ascii ''secret1'' @ [10],
      ascii ''AKIA2'' @ [9] @ ascii ''secret2'' @ [10]]"

definition unreachable_world :: world where
  "unreachable_world =
     \<lparr>accesskey_file = Inr two_account_file,
      boto3_Session = (\<lambda>access_key secret_key.
        if access_key = ascii ''AKIA1'' then Inr unreachable_session else Inr quiet_session),
      as_completed = (\<lambda>futures. futures)\<rparr>"

definition denied_world :: world where
  "denied_world =
     \<lparr>accesskey_file = Inr two_account_file,
      boto3_Session = (\<lambda>access_key secret_key.
        if access_key = ascii ''AKIA1'' then Inr denied_session else Inr quiet_session),
      as_completed = (\<lambda>futures. futures)\<rparr>"

text \<open>
  A credential file with a comment, a blank line, a record, a line of one field and a
  record with spaces around it; and one that holds no record.
\<close>

definition demo_file :: "pystr list" where
  "demo_file =
     [ascii ''# lab accounts'' @ [10],
      [10],
      ascii ''AKIA1'' @ [9] @ ascii ''secret1'' @ [10],
      ascii ''AKIA2 secret2'' @ [10],
      ascii ''  AKIA3'' @ [9] @ ascii ''secret3 '' @ [9, 10]]"

definition empty_file :: "pystr list" where
  "empty_file = [ascii ''# nothing yet'' @ [10], [10], ascii ''AKIA2 secret2'' @ [10]]"

definition empty_world :: world where
  "empty_world =
     \<lparr>accesskey_file = Inr empty_file,
      boto3_Session = (\<lambda>access_key secret_key. Inr quiet_session),
      as_completed = (\<lambda>futures. futures)\<rparr>"

text \<open>A credential file that exists and cannot be opened for reading.\<close>

definition locked_world :: world where
  "locked_world =
     \<lparr>accesskey_file = Inl (OtherError (ascii ''PermissionError'')),
      boto3_Session = (\<lambda>access_key secret_key. Inr quiet_session),
      as_completed = (\<lambda>futures. futures)\<rparr>"

text \<open>The example account of the faulty session, its tasks completing in the order submitted.\<close>

definition faulty_world_in_order :: world where
  "faulty_world_in_order =
     \<lparr>accesskey_file = Inr [ascii ''AKIA1'' @ [9] @ ascii ''secret1''],
      boto3_Session = (\<lambda>access_key secret_key. Inr faulty_session),
      as_completed = (\<lambda>futures. futures)\<rparr>"

text \<open>
  Three small credential files: a comment line before the only record; one line with a
  tab after the second field; one line whose second field is a space.
\<close>

definition commented_file :: "pystr list" where
  "commented_file = [ascii ''# lab'' @ [10], ascii ''AK'' @ [9] @ ascii ''SK'' @ [10]]"

definition trailing_tab_file :: "pystr list" where
  "trailing_tab_file = [ascii ''AK'' @ [9] @ ascii ''SK'' @ [9, 10]]"

definition blank_secret_file :: "pystr list" where
  "blank_secret_file = [ascii ''AK'' @ [9, 32, 10]]"

section \<open>Task expansion: one task per global entry, one per region for a regional entry\<close>

lemma length_submit_entry:
  "length (submit_entry rs e) =
     (if scope_of e = ascii ''global'' then 1
      else if scope_of e = ascii ''regional'' then length rs else 0)"
  by (cases e) simp

lemma length_submit_all:
  "length (submit_all registry rs) =
     length (filter (\<lambda>e. scope_of e = ascii ''global'') registry)
     + length (filter (\<lambda>e. scope_of e = ascii ''regional'') registry) * length rs"
proof (induction registry)
  case Nil
  show ?case by (simp add: submit_all_def)
next
  case (Cons e registry)
  have ne: "ascii ''global'' \<noteq> ascii ''regional''" by (simp add: ascii_def)
  from Cons show ?case
    using ne by (simp add: submit_all_def length_submit_entry)
qed

lemma fst_submit_entry: "t \<in> set (submit_entry rs e) \<Longrightarrow> fst t = fst e"
  by (cases e) (auto split: if_splits)

lemma filter_submit_entry_same: "filter (\<lambda>t. fst t = fst e) (submit_entry rs e) = submit_entry rs e"
  by (rule filter_True) (simp add: fst_submit_entry)

lemma filter_submit_entry_other: "fst e' \<noteq> fst e \<Longrightarrow> filter (\<lambda>t. fst t = fst e) (submit_entry rs e') = []"
  by (auto simp: filter_empty_conv dest: fst_submit_entry)

lemma filter_submit_all_absent:
  "fst e \<notin> fst ` set registry \<Longrightarrow> filter (\<lambda>t. fst t = fst e) (submit_all registry rs) = []"
  by (induction registry) (auto simp: submit_all_def filter_empty_conv dest: fst_submit_entry)

lemma filter_submit_all:
  "distinct (map fst registry) \<Longrightarrow> e \<in> set registry \<Longrightarrow>
   filter (\<lambda>t. fst t = fst e) (submit_all registry rs) = submit_entry rs e"
proof (induction registry)
  case Nil
  then show ?case by simp
next
  case (Cons a registry)
  show ?case
  proof (cases "e = a")
    case True
    with Cons.prems have "fst e \<notin> fst ` set registry" by auto
    then have "filter (\<lambda>t. fst t = fst e) (submit_all registry rs) = []"
      by (rule filter_submit_all_absent)
    with True show ?thesis
      using filter_submit_entry_same [of a rs] by (simp add: submit_all_def)
  next
    case False
    with Cons.prems have mem: "e \<in> set registry" and d: "distinct (map fst registry)" by auto
    from Cons.prems mem have "fst a \<noteq> fst e" by force
    then have "filter (\<lambda>t. fst t = fst e) (submit_entry rs a) = []"
      by (rule filter_submit_entry_other)
    with Cons.IH [OF d mem] show ?thesis by (simp add: submit_all_def)
  qed
qed

lemma distinct_RESOURCE_CHECKS: "distinct (map fst RESOURCE_CHECKS)"
  by (simp add: RESOURCE_CHECKS_def ascii_def)

lemma scopes_RESOURCE_CHECKS:
  "length (filter (\<lambda>e. scope_of e = ascii ''global'') RESOURCE_CHECKS) = 3"
  "length (filter (\<lambda>e. scope_of e = ascii ''regional'') RESOURCE_CHECKS) = 18"
  by (simp_all add: RESOURCE_CHECKS_def ascii_def)

text \<open>
  Claim C1. For any registry with unique names (a dict) and any list of enabled regions:
  the tasks submitted for a global entry are exactly one, at \<open>us-east-1\<close>, however
  many regions are enabled; the tasks submitted for a regional entry are exactly one per
  enabled region; and the number of tasks is the number of global entries plus the number
  of regional entries times the number of enabled regions.
\<close>

theorem task_expansion:
  assumes "distinct (map fst registry)" and "e \<in> set registry"
  shows "(scope_of e = ascii ''global'' \<longrightarrow>
            filter (\<lambda>t. fst t = fst e) (submit_all registry enabled_regions)
              = [(fst e, snd e, ascii ''us-east-1'')])
       \<and> (scope_of e = ascii ''regional'' \<longrightarrow>
            filter (\<lambda>t. fst t = fst e) (submit_all registry enabled_regions)
              = map (\<lambda>region. (fst e, snd e, region)) enabled_regions)
       \<and> length (submit_all registry enabled_regions)
            = length (filter (\<lambda>e. scope_of e = ascii ''global'') registry)
              + length (filter (\<lambda>e. scope_of e = ascii ''regional'') registry)
                * length enabled_regions"
proof -
  have ne: "ascii ''global'' \<noteq> ascii ''regional''" by (simp add: ascii_def)
  have f: "filter (\<lambda>t. fst t = fst e) (submit_all registry enabled_regions)
             = submit_entry enabled_regions e"
    using assms by (rule filter_submit_all)
  show ?thesis
    unfolding f length_submit_all using ne by (cases e) simp
qed

text \<open>
  The registry of the script at two enabled regions: 3 global and 18 regional entries,
  so 3 + 18 * 2 tasks.
\<close>

theorem task_expansion_witness:
  "distinct (map fst RESOURCE_CHECKS)
   \<and> filter (\<lambda>t. fst t = ascii ''IAM Users'')
        (submit_all RESOURCE_CHECKS [ascii ''us-east-1'', ascii ''ap-northeast-2''])
       = [(ascii ''IAM Users'',
           (ascii ''iam'', ascii ''global'', ascii ''list_users'', ascii ''Users''),
           ascii ''us-east-1'')]
   \<and> filter (\<lambda>t. fst t = ascii ''VPC'')
        (submit_all RESOURCE_CHECKS [ascii ''us-east-1'', ascii ''ap-northeast-2''])
       = [(ascii ''VPC'',
           (ascii ''ec2'', ascii ''regional'', ascii ''describe_vpcs'', ascii ''Vpcs''),
           ascii ''us-east-1''),
          (ascii ''VPC'',
           (ascii ''ec2'', ascii ''regional'', ascii ''describe_vpcs'', ascii ''Vpcs''),
           ascii ''ap-northeast-2'')]
   \<and> length (submit_all RESOURCE_CHECKS [ascii ''us-east-1'', ascii ''ap-northeast-2''])
       = 3 + 18 * 2"
proof -
  let ?iam = "(ascii ''IAM Users'',
               (ascii ''iam'', ascii ''global'', ascii ''list_users'', ascii ''Users''))"
  let ?vpc = "(ascii ''VPC'',
               (ascii ''ec2'', ascii ''regional'', ascii ''describe_vpcs'', ascii ''Vpcs''))"
  let ?rs = "[ascii ''us-east-1'', ascii ''ap-northeast-2'']"
  have m1: "?iam \<in> set RESOURCE_CHECKS" by (simp add: RESOURCE_CHECKS_def)
  have m2: "?vpc \<in> set RESOURCE_CHECKS" by (simp add: RESOURCE_CHECKS_def)
  have ne: "ascii ''regional'' \<noteq> ascii ''global''" by (simp add: ascii_def)
  from task_expansion [OF distinct_RESOURCE_CHECKS m1, of ?rs]
       task_expansion [OF distinct_RESOURCE_CHECKS m2, of ?rs]
  show ?thesis
    using ne by (simp add: distinct_RESOURCE_CHECKS scopes_RESOURCE_CHECKS)
qed

section \<open>The report: sorted, without duplicates, the same for every order of arrival\<close>

lemma str_less_iff: "str_less xs ys \<longleftrightarrow> xs < ys"
  by (induction xs ys rule: str_less.induct) auto

lemma set_collect:
  "set (fst (collect rs)) = {w. w \<noteq> [] \<and> Inr (Some w) \<in> set rs}"
proof (induction rs)
  case Nil
  show ?case by simp
next
  case (Cons r rs)
  then show ?case
    by (cases "collect rs") (auto split: sum.splits option.splits)
qed

lemma set_collect_printed:
  "set (snd (collect rs)) = {MsgTaskError e |e. Inl e \<in> set rs}"
proof (induction rs)
  case Nil
  show ?case by simp
next
  case (Cons r rs)
  then show ?case
    by (cases "collect rs") (auto split: sum.splits option.splits)
qed

lemma report_eq: "report ws = sorted_list_of_set (set ws)"
  by (simp add: report_def sorted_list_of_set_sort_remdups)

lemma report_any_enumeration:
  "distinct ys \<Longrightarrow> set ys = set ws \<Longrightarrow> sort ys = report ws"
  by (metis report_eq sorted_list_of_set_sort_remdups distinct_remdups_id)

lemma sorted_wrt_str_less_report: "sorted_wrt str_less (report ws)"
proof -
  have "sorted_wrt (<) (report ws)"
    by (simp add: report_eq)
  moreover have "str_less = (<)"
    by (intro ext) (simp add: str_less_iff)
  ultimately show ?thesis by simp
qed

lemma set_report: "set (report ws) = set ws"
  by (simp add: report_def)

lemma distinct_report: "distinct (report ws)"
  by (simp add: report_def)

lemma count_list_distinct: "distinct xs \<Longrightarrow> x \<in> set xs \<Longrightarrow> count_list xs x = 1"
  by (induction xs) auto

lemma count_report: "w \<in> set ws \<Longrightarrow> count_list (report ws) w = 1"
  by (simp add: count_list_distinct distinct_report set_report)

text \<open>
  The report of the results in any two orders of arrival (two lists with the same multiset
  of results).
\<close>

lemma report_any_order:
  assumes "mset arrived' = mset arrived"
  shows "report (fst (collect arrived')) = report (fst (collect arrived))
       \<and> sorted_wrt str_less (report (fst (collect arrived)))
       \<and> set (report (fst (collect arrived))) = {w. w \<noteq> [] \<and> Inr (Some w) \<in> set arrived}
       \<and> (\<forall>w. w \<noteq> [] \<and> Inr (Some w) \<in> set arrived
              \<longrightarrow> count_list (report (fst (collect arrived))) w = 1)"
proof -
  from assms have "set arrived' = set arrived" by (rule mset_eq_setD)
  then have "set (fst (collect arrived')) = set (fst (collect arrived))"
    by (simp add: set_collect)
  then have "report (fst (collect arrived')) = report (fst (collect arrived))"
    by (simp add: report_eq)
  moreover have "\<forall>w. w \<noteq> [] \<and> Inr (Some w) \<in> set arrived
              \<longrightarrow> count_list (report (fst (collect arrived))) w = 1"
    using count_report [of _ "fst (collect arrived)"] by (simp add: set_collect)
  ultimately show ?thesis
    by (simp add: sorted_wrt_str_less_report set_report set_collect)
qed

lemma demo_results_report:
  "report (fst (collect demo_results))
     = [global_finding (ascii ''CloudFront (Enabled)'') 2,
        regional_finding (ascii ''VPC'') 1 (ascii ''us-east-1'')]"
  by (simp add: demo_results_def report_def regional_finding_def global_finding_def ascii_def)

section \<open>Errors of one task do not reach its siblings or the scan\<close>

lemma raised_Some: "raised r = Some e \<longleftrightarrow> r = Inl e"
  by (cases r) (simp_all add: raised_def)

lemma iam_users_check_raises:
  "call_users session svc region api = Inl e \<Longrightarrow>
   iam_users_check session svc api key region = Inl e"
  by (simp add: iam_users_check_def)

lemma cloudfront_check_raises:
  "call_distributions session svc region api = Inl e \<Longrightarrow>
   cloudfront_check session name svc api key region = Inl e"
  by (simp add: cloudfront_check_def)

lemma kms_check_raises:
  "list_keys session svc region = Inl e \<Longrightarrow>
   kms_check session name svc key region = Inl e"
  by (simp add: kms_check_def)

lemma listing_check_raises:
  "call_listing session svc region api params = Inl e \<Longrightarrow>
   listing_check session svc api params key region finding = Inl e"
  by (simp add: listing_check_def)

lemma ec2_instances_check_raises:
  "describe_instances session svc region
     [Filters [(ascii ''instance-state-name'',
                [ascii ''pending'', ascii ''running'', ascii ''stopping'', ascii ''stopped''])]]
     = Inl e \<Longrightarrow>
   ec2_instances_check session name svc key region = Inl e"
  by (simp add: ec2_instances_check_def)

lemmas branch_raises =
  iam_users_check_raises cloudfront_check_raises kms_check_raises listing_check_raises
  ec2_instances_check_raises

lemma listing_call_raises:
  "client session service_client region = None \<Longrightarrow>
   listing_call session (resource_name, (service_client, scope, api_call, result_key), region)
     = Some e \<longrightarrow>
   service_body session resource_name (service_client, scope, api_call, result_key) region
     = Inl e"
  by (simp add: service_body_def raised_Some branch_raises split: if_split)


lemma absorbed_no_finding:
  "service_body session resource_name config region = Inl e \<Longrightarrow>
   is_ClientError e \<or> is_BotoCoreError e \<Longrightarrow>
   check_single_service session resource_name config region = Inr None"
  by (simp add: check_single_service_def)

lemma unexpected_leaves_task:
  "service_body session resource_name config region = Inl e \<Longrightarrow>
   \<not> is_ClientError e \<Longrightarrow> \<not> is_BotoCoreError e \<Longrightarrow>
   check_single_service session resource_name config region = Inl e"
  by (simp add: check_single_service_def)

lemma str_nat_nonempty: "str_nat n \<noteq> []"
  by (subst str_nat.simps) simp

lemma findings_nonempty:
  "iam_finding n ns \<noteq> []" "global_finding name n \<noteq> []" "regional_finding name n region \<noteq> []"
  by (simp_all add: iam_finding_def global_finding_def regional_finding_def ascii_def)

lemma iam_users_check_truthy:
  "truthy_finding (iam_users_check session svc api key region)"
  by (simp add: truthy_finding_def iam_users_check_def Let_def findings_nonempty
      split: sum.split)

lemma cloudfront_check_truthy:
  "truthy_finding (cloudfront_check session name svc api key region)"
  by (simp add: truthy_finding_def cloudfront_check_def Let_def findings_nonempty
      split: sum.split)

lemma kms_check_truthy:
  "truthy_finding (kms_check session name svc key region)"
  by (simp add: truthy_finding_def kms_check_def findings_nonempty split: sum.split)

lemma ec2_instances_check_truthy:
  "truthy_finding (ec2_instances_check session name svc key region)"
  by (simp add: truthy_finding_def ec2_instances_check_def findings_nonempty
      split: sum.split option.split list.split)

lemma listing_check_global_truthy:
  "truthy_finding (listing_check session svc api params key region (global_finding name))"
  by (simp add: truthy_finding_def listing_check_def Let_def findings_nonempty
      split: sum.split)

lemma listing_check_regional_truthy:
  "truthy_finding
     (listing_check session svc api params key region (\<lambda>n. regional_finding name n region'))"
  by (simp add: truthy_finding_def listing_check_def Let_def findings_nonempty
      split: sum.split)

lemmas branch_truthy =
  iam_users_check_truthy cloudfront_check_truthy kms_check_truthy
  ec2_instances_check_truthy listing_check_global_truthy listing_check_regional_truthy

lemma truthy_Inl: "truthy_finding (Inl e)"
  by (simp add: truthy_finding_def)

lemma service_body_truthy:
  "truthy_finding (service_body session resource_name config region)"
  by (cases config)
     (simp add: service_body_def branch_truthy truthy_Inl split: if_split option.split)

lemma check_single_service_truthy:
  "truthy_finding (check_single_service session resource_name config region)"
  using service_body_truthy [of session resource_name config region]
  by (simp add: check_single_service_def truthy_finding_def split: sum.splits)

lemma check_single_service_nonempty:
  "check_single_service session resource_name config region = Inr (Some w) \<Longrightarrow> w \<noteq> []"
  using check_single_service_truthy [of session resource_name config region]
  by (simp add: truthy_finding_def)

lemma run_task_nonempty: "run_task session t = Inr (Some w) \<Longrightarrow> w \<noteq> []"
  by (cases t) (auto dest: check_single_service_nonempty)

lemma set_print_report: "MsgWarning w \<in> set (print_report ws) \<longleftrightarrow> w \<in> set ws"
  by (auto simp: print_report_def set_report)

lemma check_aws_account_scan:
  assumes "boto3_Session world access_key secret_key = Inr session"
      and "get_enabled_regions session = (printed, Inr (Some (r # rs)))"
  shows "check_aws_account world access_key secret_key account_name =
           (MsgAccountStart account_name (take 5 access_key) # printed
              @ snd (collect (as_completed world
                      (map (run_task session) (submit_all RESOURCE_CHECKS (r # rs)))))
              @ print_report (fst (collect (as_completed world
                      (map (run_task session) (submit_all RESOURCE_CHECKS (r # rs))))))
              @ [MsgAccountDone account_name], Inr ())"
  using assms by (simp add: check_aws_account_def Let_def split: prod.splits)


text \<open>
  Claim C3. In the scan of an account (its session is built, its regions are discovered,
  the pool yields every submitted task once), for every submitted task:
  \<^item> when its client is built and its listing call raises an error of the call to the
    provider, a \<open>ClientError\<close> or a \<open>BotoCoreError\<close>, the task returns \<open>None\<close>:
    no finding;
  \<^item> when any other exception leaves the body of the task, the scan prints it;
  \<^item> in every case, each finding of each submitted task is a line of the account's
    report, the scan returns normally and its last line is the line that ends the scan.
\<close>

theorem task_errors_isolated:
  assumes "boto3_Session world access_key secret_key = Inr session"
      and "get_enabled_regions session = (printed, Inr (Some (r # rs)))"
      and "mset (as_completed world
                   (map (run_task session) (submit_all RESOURCE_CHECKS (r # rs))))
             = mset (map (run_task session) (submit_all RESOURCE_CHECKS (r # rs)))"
      and "(resource_name, (service_client, scope, api_call, result_key), region)
             \<in> set (submit_all RESOURCE_CHECKS (r # rs))"
  shows "(\<forall>e. client session service_client region = None
              \<and> listing_call session
                    (resource_name, (service_client, scope, api_call, result_key), region)
                  = Some e
              \<and> (is_ClientError e \<or> is_BotoCoreError e)
            \<longrightarrow> check_single_service session resource_name
                   (service_client, scope, api_call, result_key) region = Inr None)
       \<and> (\<forall>e. service_body session resource_name
                   (service_client, scope, api_call, result_key) region = Inl e
              \<and> \<not> is_ClientError e \<and> \<not> is_BotoCoreError e
            \<longrightarrow> MsgTaskError e
                  \<in> set (fst (check_aws_account world access_key secret_key account_name)))
       \<and> (\<forall>t w. t \<in> set (submit_all RESOURCE_CHECKS (r # rs))
                \<and> run_task session t = Inr (Some w)
            \<longrightarrow> MsgWarning w
                  \<in> set (fst (check_aws_account world access_key secret_key account_name)))
       \<and> snd (check_aws_account world access_key secret_key account_name) = Inr ()
       \<and> last (fst (check_aws_account world access_key secret_key account_name))
           = MsgAccountDone account_name"
proof -
  let ?tasks = "submit_all RESOURCE_CHECKS (r # rs)"
  let ?arrived = "as_completed world (map (run_task session) ?tasks)"
  let ?t = "(resource_name, (service_client, scope, api_call, result_key), region)"
  have scan: "check_aws_account world access_key secret_key account_name =
           (MsgAccountStart account_name (take 5 access_key) # printed
              @ snd (collect ?arrived) @ print_report (fst (collect ?arrived))
              @ [MsgAccountDone account_name], Inr ())"
    using assms(1,2) by (rule check_aws_account_scan)
  have arrived: "set ?arrived = run_task session ` set ?tasks"
    using mset_eq_setD [OF assms(3)] by simp
  have absorbed: "check_single_service session resource_name
                   (service_client, scope, api_call, result_key) region = Inr None"
    if "client session service_client region = None"
       "listing_call session ?t = Some e" "is_ClientError e \<or> is_BotoCoreError e" for e
    using that listing_call_raises [of session service_client region resource_name scope
        api_call result_key e]
    by (simp add: absorbed_no_finding)
  have surfaced: "MsgTaskError e \<in> set (snd (collect ?arrived))"
    if "service_body session resource_name (service_client, scope, api_call, result_key) region
          = Inl e" "\<not> is_ClientError e" "\<not> is_BotoCoreError e" for e
  proof -
    from that have "run_task session ?t = Inl e"
      by (simp add: unexpected_leaves_task)
    with assms(4) have "Inl e \<in> set ?arrived"
      unfolding arrived by (metis imageI)
    then show ?thesis by (auto simp: set_collect_printed)
  qed
  have reported: "MsgWarning w \<in> set (print_report (fst (collect ?arrived)))"
    if "t \<in> set ?tasks" "run_task session t = Inr (Some w)" for t w
  proof -
    from that have "Inr (Some w) \<in> set ?arrived"
      unfolding arrived by (metis imageI)
    moreover from that(2) have "w \<noteq> []" by (rule run_task_nonempty)
    ultimately show ?thesis by (simp add: set_print_report set_collect)
  qed
  have c1: "\<forall>e. client session service_client region = None
              \<and> listing_call session ?t = Some e
              \<and> (is_ClientError e \<or> is_BotoCoreError e)
            \<longrightarrow> check_single_service session resource_name
                   (service_client, scope, api_call, result_key) region = Inr None"
    using absorbed by blast
  have c2: "\<forall>e. service_body session resource_name
                   (service_client, scope, api_call, result_key) region = Inl e
              \<and> \<not> is_ClientError e \<and> \<not> is_BotoCoreError e
            \<longrightarrow> MsgTaskError e
                  \<in> set (fst (check_aws_account world access_key secret_key account_name))"
  proof (intro allI impI)
    fix e
    assume "service_body session resource_name
              (service_client, scope, api_call, result_key) region = Inl e
            \<and> \<not> is_ClientError e \<and> \<not> is_BotoCoreError e"
    then have "MsgTaskError e \<in> set (snd (collect ?arrived))"
      using surfaced by blast
    then show "MsgTaskError e
                 \<in> set (fst (check_aws_account world access_key secret_key account_name))"
      by (simp add: scan)
  qed
  have c3: "\<forall>t w. t \<in> set ?tasks \<and> run_task session t = Inr (Some w)
            \<longrightarrow> MsgWarning w
                  \<in> set (fst (check_aws_account world access_key secret_key account_name))"
  proof (intro allI impI)
    fix t w
    assume "t \<in> set ?tasks \<and> run_task session t = Inr (Some w)"
    then have "MsgWarning w \<in> set (print_report (fst (collect ?arrived)))"
      using reported by blast
    then show "MsgWarning w
                 \<in> set (fst (check_aws_account world access_key secret_key account_name))"
      by (simp add: scan)
  qed
  have c4: "snd (check_aws_account world access_key secret_key account_name) = Inr ()"
    by (simp add: scan)
  have c5: "last (fst (check_aws_account world access_key secret_key account_name))
              = MsgAccountDone account_name"
    by (simp add: scan)
  from c1 c2 c3 c4 c5 show ?thesis by blast
qed


text \<open>
  The example account: the instance listing is denied (no finding), the user listing makes
  its task raise \<open>KeyError\<close> (printed), and the finding of the network task is reported.
\<close>

lemma faulty_regions:
  "get_enabled_regions faulty_session = ([], Inr (Some [ascii ''us-east-1'']))"
  by (simp add: get_enabled_regions_def faulty_session_def quiet_session_def)

lemma faulty_ec2:
  "client faulty_session (ascii ''ec2'') (ascii ''us-east-1'') = None"
  "listing_call faulty_session
     (ascii ''EC2 Instances'',
      (ascii ''ec2'', ascii ''regional'', ascii ''describe_instances'', ascii ''Reservations''),
      ascii ''us-east-1'')
   = Some (ClientError (ascii ''UnauthorizedOperation''))"
  by (simp_all add: faulty_session_def quiet_session_def raised_def ascii_def)

lemma faulty_iam:
  "service_body faulty_session (ascii ''IAM Users'')
     (ascii ''iam'', ascii ''global'', ascii ''list_users'', ascii ''Users'') (ascii ''us-east-1'')
   = Inl (KeyError (ascii ''UserName''))"
  by (simp add: service_body_def iam_users_check_def faulty_session_def quiet_session_def
        get_or_def ascii_def)

lemma faulty_vpc:
  "run_task faulty_session
     (ascii ''VPC'', (ascii ''ec2'', ascii ''regional'', ascii ''describe_vpcs'', ascii ''Vpcs''),
      ascii ''us-east-1'')
   = Inr (Some (regional_finding (ascii ''VPC'') 1 (ascii ''us-east-1'')))"
  by (simp add: check_single_service_def service_body_def listing_check_def
        faulty_session_def quiet_session_def get_or_def ascii_def)

lemma faulty_tasks:
  "(ascii ''EC2 Instances'',
      (ascii ''ec2'', ascii ''regional'', ascii ''describe_instances'', ascii ''Reservations''),
      ascii ''us-east-1'') \<in> set (submit_all RESOURCE_CHECKS [ascii ''us-east-1''])"
  "(ascii ''IAM Users'',
      (ascii ''iam'', ascii ''global'', ascii ''list_users'', ascii ''Users''),
      ascii ''us-east-1'') \<in> set (submit_all RESOURCE_CHECKS [ascii ''us-east-1''])"
  "(ascii ''VPC'', (ascii ''ec2'', ascii ''regional'', ascii ''describe_vpcs'', ascii ''Vpcs''),
      ascii ''us-east-1'') \<in> set (submit_all RESOURCE_CHECKS [ascii ''us-east-1''])"
  by (simp_all add: submit_all_def RESOURCE_CHECKS_def ascii_def)

theorem task_errors_isolated_witness:
  "check_single_service faulty_session (ascii ''EC2 Instances'')
     (ascii ''ec2'', ascii ''regional'', ascii ''describe_instances'', ascii ''Reservations'')
     (ascii ''us-east-1'') = Inr None
   \<and> MsgTaskError (KeyError (ascii ''UserName''))
       \<in> set (fst (check_aws_account faulty_world (ascii ''AKIA1'') (ascii ''secret1'')
                     (account_label 1)))
   \<and> MsgWarning (regional_finding (ascii ''VPC'') 1 (ascii ''us-east-1''))
       \<in> set (fst (check_aws_account faulty_world (ascii ''AKIA1'') (ascii ''secret1'')
                     (account_label 1)))
   \<and> snd (check_aws_account faulty_world (ascii ''AKIA1'') (ascii ''secret1'')
             (account_label 1)) = Inr ()"
proof -
  have s: "boto3_Session faulty_world (ascii ''AKIA1'') (ascii ''secret1'') = Inr faulty_session"
    by (simp add: faulty_world_def)
  have p: "mset (as_completed faulty_world
                   (map (run_task faulty_session)
                      (submit_all RESOURCE_CHECKS [ascii ''us-east-1''])))
             = mset (map (run_task faulty_session)
                      (submit_all RESOURCE_CHECKS [ascii ''us-east-1'']))"
    by (simp add: faulty_world_def)
  note ec2 = task_errors_isolated [OF s faulty_regions p faulty_tasks(1),
      of "account_label 1"]
  note iam = task_errors_isolated [OF s faulty_regions p faulty_tasks(2),
      of "account_label 1"]
  from ec2 faulty_ec2 have a: "check_single_service faulty_session (ascii ''EC2 Instances'')
     (ascii ''ec2'', ascii ''regional'', ascii ''describe_instances'', ascii ''Reservations'')
     (ascii ''us-east-1'') = Inr None"
    by simp
  from iam faulty_iam have b: "MsgTaskError (KeyError (ascii ''UserName''))
       \<in> set (fst (check_aws_account faulty_world (ascii ''AKIA1'') (ascii ''secret1'')
                     (account_label 1)))"
    by simp
  from iam faulty_vpc faulty_tasks(3) have c:
    "MsgWarning (regional_finding (ascii ''VPC'') 1 (ascii ''us-east-1''))
       \<in> set (fst (check_aws_account faulty_world (ascii ''AKIA1'') (ascii ''secret1'')
                     (account_label 1)))"
    by blast
  from a b c iam show ?thesis by blast
qed


section \<open>The printed report: sorted, without duplicates, the same for every order of arrival\<close>

text \<open>
  The finding lines that the scan of an account prints are the report of the results in
  their order of arrival.
\<close>

lemma warnings_printed_append:
  "warnings_printed (xs @ ys) = warnings_printed xs @ warnings_printed ys"
  by (induction xs rule: warnings_printed.induct) simp_all

lemma warnings_printed_collect: "warnings_printed (snd (collect rs)) = []"
proof (induction rs)
  case Nil
  show ?case by simp
next
  case (Cons r rs)
  then show ?case
    by (cases "collect rs") (simp split: sum.split option.split)
qed

lemma warnings_printed_map: "warnings_printed (map MsgWarning ws) = ws"
  by (induction ws) simp_all

lemma warnings_printed_print_report: "warnings_printed (print_report ws) = report ws"
  by (simp add: print_report_def warnings_printed_map report_def)

lemma regions_found_print_nothing:
  "get_enabled_regions session = (printed, Inr (Some regions)) \<Longrightarrow> printed = []"
  by (auto simp: get_enabled_regions_def regions_except_def
      split: option.splits sum.splits if_splits)

lemma check_aws_account_report:
  assumes "boto3_Session world access_key secret_key = Inr session"
      and "get_enabled_regions session = (printed, Inr (Some (r # rs)))"
  shows "warnings_printed (fst (check_aws_account world access_key secret_key account_name))
           = report (fst (collect (as_completed world
                      (map (run_task session) (submit_all RESOURCE_CHECKS (r # rs))))))"
  using regions_found_print_nothing [OF assms(2)]
  by (simp add: check_aws_account_scan [OF assms] warnings_printed_append
        warnings_printed_collect warnings_printed_print_report)


text \<open>
  Claim C2. Take the scan of one account (its session is built, its regions are discovered)
  under any two orders in which the pool may complete the submitted tasks. The finding
  lines the scan prints are the same list in both; the list is strictly increasing in
  Python's order on strings, so sorted and without duplicates; its strings are exactly the
  findings of the tasks; so a finding that two or more tasks produce is printed exactly
  once. The same holds of the lines printed for any results at all, whatever multiset of
  findings they hold: two orders of arrival of the same results give the same printed
  list, strictly increasing, of exactly the findings, each once.
\<close>

theorem printed_report_sorted_distinct_any_order:
  assumes "boto3_Session world access_key secret_key = Inr session"
      and "boto3_Session world' access_key secret_key = Inr session"
      and "get_enabled_regions session = (printed, Inr (Some (r # rs)))"
      and "mset (as_completed world
                   (map (run_task session) (submit_all RESOURCE_CHECKS (r # rs))))
             = mset (map (run_task session) (submit_all RESOURCE_CHECKS (r # rs)))"
      and "mset (as_completed world'
                   (map (run_task session) (submit_all RESOURCE_CHECKS (r # rs))))
             = mset (map (run_task session) (submit_all RESOURCE_CHECKS (r # rs)))"
  shows "warnings_printed (fst (check_aws_account world' access_key secret_key account_name))
           = warnings_printed (fst (check_aws_account world access_key secret_key account_name))
       \<and> sorted_wrt str_less
             (warnings_printed (fst (check_aws_account world access_key secret_key account_name)))
       \<and> set (warnings_printed
                 (fst (check_aws_account world access_key secret_key account_name)))
           = {w. Inr (Some w)
                   \<in> set (map (run_task session) (submit_all RESOURCE_CHECKS (r # rs)))}
       \<and> (\<forall>w. Inr (Some w)
                   \<in> set (map (run_task session) (submit_all RESOURCE_CHECKS (r # rs)))
              \<longrightarrow> count_list
                    (warnings_printed
                       (fst (check_aws_account world access_key secret_key account_name))) w
                  = 1)
       \<and> (\<forall>arrived arrived'. mset arrived' = mset arrived
              \<longrightarrow> warnings_printed (print_report (fst (collect arrived')))
                    = warnings_printed (print_report (fst (collect arrived)))
                  \<and> sorted_wrt str_less (warnings_printed (print_report (fst (collect arrived))))
                  \<and> set (warnings_printed (print_report (fst (collect arrived))))
                      = {w. w \<noteq> [] \<and> Inr (Some w) \<in> set arrived}
                  \<and> (\<forall>w. w \<noteq> [] \<and> Inr (Some w) \<in> set arrived
                         \<longrightarrow> count_list
                               (warnings_printed (print_report (fst (collect arrived)))) w
                             = 1))"
proof -
  let ?futures = "map (run_task session) (submit_all RESOURCE_CHECKS (r # rs))"
  let ?a = "as_completed world ?futures"
  let ?a' = "as_completed world' ?futures"
  let ?out = "warnings_printed (fst (check_aws_account world access_key secret_key account_name))"
  have w: "?out = report (fst (collect ?a))"
    using assms(1,3) by (rule check_aws_account_report)
  have w': "warnings_printed (fst (check_aws_account world' access_key secret_key account_name))
              = report (fst (collect ?a'))"
    using assms(2,3) by (rule check_aws_account_report)
  from assms(4,5) have m: "mset ?a' = mset ?a" by simp
  note any = report_any_order [OF m]
  have s: "set ?a = set ?futures"
    using assms(4) by (rule mset_eq_setD)
  have ne: "w \<noteq> []" if "Inr (Some w) \<in> set ?futures" for w
  proof -
    from that obtain t where "run_task session t = Inr (Some w)" by auto
    then show ?thesis by (rule run_task_nonempty)
  qed
  have c1: "warnings_printed (fst (check_aws_account world' access_key secret_key account_name))
              = ?out"
    using any by (simp add: w w')
  have c2: "sorted_wrt str_less ?out"
    using any by (simp add: w)
  have c3: "set ?out = {w. Inr (Some w) \<in> set ?futures}"
  proof -
    from any have "set ?out = {w. w \<noteq> [] \<and> Inr (Some w) \<in> set ?a}"
      by (simp add: w)
    with s ne show ?thesis by auto
  qed
  have c4: "\<forall>w. Inr (Some w) \<in> set ?futures \<longrightarrow> count_list ?out w = 1"
  proof (intro allI impI)
    fix w
    assume h: "Inr (Some w) \<in> set ?futures"
    with ne have "w \<noteq> []" by blast
    moreover from h s have "Inr (Some w) \<in> set ?a" by simp
    ultimately have "w \<noteq> [] \<and> Inr (Some w) \<in> set ?a" by simp
    with any [THEN conjunct2, THEN conjunct2, THEN conjunct2]
    have "count_list (report (fst (collect ?a))) w = 1" by blast
    then show "count_list ?out w = 1" by (simp add: w)
  qed
  have c5: "\<forall>arrived arrived'. mset arrived' = mset arrived
              \<longrightarrow> warnings_printed (print_report (fst (collect arrived')))
                    = warnings_printed (print_report (fst (collect arrived)))
                  \<and> sorted_wrt str_less (warnings_printed (print_report (fst (collect arrived))))
                  \<and> set (warnings_printed (print_report (fst (collect arrived))))
                      = {w. w \<noteq> [] \<and> Inr (Some w) \<in> set arrived}
                  \<and> (\<forall>w. w \<noteq> [] \<and> Inr (Some w) \<in> set arrived
                         \<longrightarrow> count_list
                               (warnings_printed (print_report (fst (collect arrived)))) w
                             = 1)"
  proof (intro allI impI)
    fix arrived arrived' :: "task_result list"
    assume "mset arrived' = mset arrived"
    then show "warnings_printed (print_report (fst (collect arrived')))
                    = warnings_printed (print_report (fst (collect arrived)))
                  \<and> sorted_wrt str_less (warnings_printed (print_report (fst (collect arrived))))
                  \<and> set (warnings_printed (print_report (fst (collect arrived))))
                      = {w. w \<noteq> [] \<and> Inr (Some w) \<in> set arrived}
                  \<and> (\<forall>w. w \<noteq> [] \<and> Inr (Some w) \<in> set arrived
                         \<longrightarrow> count_list
                               (warnings_printed (print_report (fst (collect arrived)))) w
                             = 1)"
      unfolding warnings_printed_print_report by (rule report_any_order)
  qed
  show ?thesis
    by (rule conjI [OF c1 conjI [OF c2 conjI [OF c3 conjI [OF c4 c5]]]])
qed

text \<open>
  The example account with its tasks completing in the order submitted and in the reverse
  order; and the five example results, where the finding that arrives twice is printed
  once, after the one that is smaller as a string.
\<close>

theorem printed_report_sorted_distinct_any_order_witness:
  "warnings_printed (fst (check_aws_account faulty_world (ascii ''AKIA1'') (ascii ''secret1'')
                            (account_label 1)))
     = warnings_printed (fst (check_aws_account faulty_world_in_order (ascii ''AKIA1'')
                                (ascii ''secret1'') (account_label 1)))
   \<and> sorted_wrt str_less
        (warnings_printed (fst (check_aws_account faulty_world_in_order (ascii ''AKIA1'')
                                  (ascii ''secret1'') (account_label 1))))
   \<and> count_list
        (warnings_printed (fst (check_aws_account faulty_world_in_order (ascii ''AKIA1'')
                                  (ascii ''secret1'') (account_label 1))))
        (regional_finding (ascii ''VPC'') 1 (ascii ''us-east-1'')) = 1
   \<and> mset (rev demo_results) = mset demo_results
   \<and> warnings_printed (print_report (fst (collect (rev demo_results))))
       = warnings_printed (print_report (fst (collect demo_results)))
   \<and> warnings_printed (print_report (fst (collect demo_results)))
       = [global_finding (ascii ''CloudFront (Enabled)'') 2,
          regional_finding (ascii ''VPC'') 1 (ascii ''us-east-1'')]"
proof -
  have s: "boto3_Session faulty_world_in_order (ascii ''AKIA1'') (ascii ''secret1'')
             = Inr faulty_session"
    by (simp add: faulty_world_in_order_def)
  have s': "boto3_Session faulty_world (ascii ''AKIA1'') (ascii ''secret1'') = Inr faulty_session"
    by (simp add: faulty_world_def)
  have p: "mset (as_completed faulty_world_in_order
                   (map (run_task faulty_session)
                      (submit_all RESOURCE_CHECKS [ascii ''us-east-1''])))
             = mset (map (run_task faulty_session)
                      (submit_all RESOURCE_CHECKS [ascii ''us-east-1'']))"
    by (simp add: faulty_world_in_order_def)
  have p': "mset (as_completed faulty_world
                   (map (run_task faulty_session)
                      (submit_all RESOURCE_CHECKS [ascii ''us-east-1''])))
             = mset (map (run_task faulty_session)
                      (submit_all RESOURCE_CHECKS [ascii ''us-east-1'']))"
    by (simp add: faulty_world_def)
  note t = printed_report_sorted_distinct_any_order [OF s s' faulty_regions p p',
      of "account_label 1"]
  have v: "Inr (Some (regional_finding (ascii ''VPC'') 1 (ascii ''us-east-1'')))
             \<in> set (map (run_task faulty_session)
                       (submit_all RESOURCE_CHECKS [ascii ''us-east-1'']))"
    using faulty_tasks(3) faulty_vpc by force
  have m: "mset (rev demo_results) = mset demo_results" by simp
  from t [THEN conjunct1]
  have a: "warnings_printed (fst (check_aws_account faulty_world (ascii ''AKIA1'')
                            (ascii ''secret1'') (account_label 1)))
     = warnings_printed (fst (check_aws_account faulty_world_in_order (ascii ''AKIA1'')
                                (ascii ''secret1'') (account_label 1)))"
    by blast
  from t [THEN conjunct2, THEN conjunct1]
  have b: "sorted_wrt str_less
        (warnings_printed (fst (check_aws_account faulty_world_in_order (ascii ''AKIA1'')
                                  (ascii ''secret1'') (account_label 1))))"
    by blast
  from t [THEN conjunct2, THEN conjunct2, THEN conjunct2, THEN conjunct1] v
  have c: "count_list
        (warnings_printed (fst (check_aws_account faulty_world_in_order (ascii ''AKIA1'')
                                  (ascii ''secret1'') (account_label 1))))
        (regional_finding (ascii ''VPC'') 1 (ascii ''us-east-1'')) = 1"
    by blast
  from t [THEN conjunct2, THEN conjunct2, THEN conjunct2, THEN conjunct2, rule_format, OF m,
      THEN conjunct1]
  have d: "warnings_printed (print_report (fst (collect (rev demo_results))))
       = warnings_printed (print_report (fst (collect demo_results)))"
    by blast
  have e: "warnings_printed (print_report (fst (collect demo_results)))
       = [global_finding (ascii ''CloudFront (Enabled)'') 2,
          regional_finding (ascii ''VPC'') 1 (ascii ''us-east-1'')]"
    by (simp add: warnings_printed_print_report demo_results_report)
  from a b c m d e show ?thesis by blast
qed

section \<open>The managed-key check\<close>










text \<open>
  A \<open>ClientError\<close> of the lookup of one key: the loop goes on as if the key were not
  listed.
\<close>

lemma key_client_error_skipped:
  assumes "KeyId key = Some key_id"
      and "describe_key session svc region key_id = Inl (ClientError m)"
  shows "kms_key_loop session svc region (keys1 @ key # keys2) acc
           = kms_key_loop session svc region (keys1 @ keys2) acc"
proof (induction keys1 arbitrary: acc)
  case Nil
  from assms show ?case by simp
next
  case (Cons a keys1)
  then show ?case
    by (simp add: Let_def split: option.split sum.split)
qed

text \<open>
  Claim C5, at an input where the code departs from it. The lookup of the first of two keys
  raises a \<open>BotoCoreError\<close>. The handler inside the loop names \<open>ClientError\<close> only, so
  the exception ends the loop and reaches the handler of the task: the task returns
  \<open>None\<close>, although the second key is a disabled customer key, which the loop counts
  when the first key is not listed.
\<close>

theorem key_lookup_timeout_fails_task:
  "describe_key kms_timeout_session (ascii ''kms'') (ascii ''us-east-1'') (ascii ''k0'')
     = Inl (BotoCoreError (ascii ''ReadTimeoutError''))
   \<and> reports_disabled_customer_key kms_timeout_session (ascii ''kms'') (ascii ''us-east-1'')
        \<lparr>KeyId = Some (ascii ''k1'')\<rparr>
   \<and> kms_key_loop kms_timeout_session (ascii ''kms'') (ascii ''us-east-1'')
        [\<lparr>KeyId = Some (ascii ''k0'')\<rparr>, \<lparr>KeyId = Some (ascii ''k1'')\<rparr>] []
       = Inl (BotoCoreError (ascii ''ReadTimeoutError''))
   \<and> kms_key_loop kms_timeout_session (ascii ''kms'') (ascii ''us-east-1'')
        [\<lparr>KeyId = Some (ascii ''k1'')\<rparr>] []
       = Inr [\<lparr>KeyId = Some (ascii ''k1'')\<rparr>]
   \<and> check_single_service kms_timeout_session (ascii ''KMS Keys (Disabled CMK)'')
        (ascii ''kms'', ascii ''regional'', ascii ''list_keys'', ascii ''Keys'')
        (ascii ''us-east-1'')
       = Inr None"
  by (simp add: check_single_service_def service_body_def kms_check_def
        reports_disabled_customer_key_def kms_timeout_session_def quiet_session_def
        key_metadata_of_def get_or_def ascii_def)


section \<open>The identity-user check\<close>

lemma user_names_of_all_named:
  "map UserName users = map Some user_names \<Longrightarrow> user_names_of users = Inr user_names"
  by (induction users arbitrary: user_names) auto

text \<open>
  Claim C6. The task of the resource \<open>IAM Users\<close>, when its client is built and the
  listing returns: the users whose \<open>Arn\<close> contains \<open>AWSServiceRole\<close> are left out; when
  every remaining user has a name, the finding reports the number of remaining users and
  joins their names, in the order of the listing; there is no finding when no user
  remains.
\<close>

theorem identity_user_filter:
  assumes "client session service_client region = None"
      and "call_users session service_client region api_call = Inr response"
      and "map UserName
             (filter (\<lambda>u. \<not> contains (ascii ''AWSServiceRole'') (get_or (Arn u) []))
                (get_or (response result_key) []))
           = map Some user_names"
  shows "check_single_service session (ascii ''IAM Users'')
           (service_client, scope, api_call, result_key) region
         = (if user_names = [] then Inr None
            else Inr (Some (iam_finding (length user_names) user_names)))"
proof -
  let ?users = "filter (\<lambda>u. \<not> contains (ascii ''AWSServiceRole'') (get_or (Arn u) []))
                  (get_or (response result_key) [])"
  from assms(3) have n: "user_names_of ?users = Inr user_names"
    by (rule user_names_of_all_named)
  from assms(3) have l: "length ?users = length user_names"
    by (metis length_map)
  then have e: "?users = [] \<longleftrightarrow> user_names = []" by auto
  have "iam_users_check session service_client api_call result_key region
          = (if user_names = [] then Inr None
             else Inr (Some (iam_finding (length user_names) user_names)))"
    unfolding iam_users_check_def Let_def using assms(2) n l e by simp
  with assms(1) show ?thesis
    by (simp add: check_single_service_def service_body_def)
qed

text \<open>
  Three users of which the second is service-linked: the finding reports 2 and names the
  other two.
\<close>

lemma three_users_kept:
  "filter (\<lambda>u. \<not> contains (ascii ''AWSServiceRole'') (get_or (Arn u) [])) three_users
     = [\<lparr>UserName = Some (ascii ''alice''), Arn = Some (ascii ''arn:aws:iam::1:user/alice'')\<rparr>,
        \<lparr>UserName = Some (ascii ''bob''), Arn = Some (ascii ''arn:aws:iam::1:user/bob'')\<rparr>]"
  by (simp add: three_users_def get_or_def ascii_def)

theorem identity_user_filter_witness:
  "length three_users = 3
   \<and> check_single_service iam_session (ascii ''IAM Users'')
        (ascii ''iam'', ascii ''global'', ascii ''list_users'', ascii ''Users'')
        (ascii ''us-east-1'')
       = Inr (Some (ascii ''IAM '' @ [49324, 50857, 51088] @ ascii '' 2'' @ [47749]
                    @ ascii '' '' @ [48156, 44204] @ ascii '': alice, bob''))"
proof -
  have c: "client iam_session (ascii ''iam'') (ascii ''us-east-1'') = None"
    by (simp add: iam_session_def quiet_session_def)
  have u: "call_users iam_session (ascii ''iam'') (ascii ''us-east-1'') (ascii ''list_users'')
             = Inr (\<lambda>k. if k = ascii ''Users'' then Some three_users else None)"
    by (simp add: iam_session_def quiet_session_def)
  have m: "map UserName
             (filter (\<lambda>u. \<not> contains (ascii ''AWSServiceRole'') (get_or (Arn u) []))
                (get_or ((\<lambda>k. if k = ascii ''Users'' then Some three_users else None)
                           (ascii ''Users'')) []))
           = map Some [ascii ''alice'', ascii ''bob'']"
    by (simp add: get_or_def [of "Some three_users"] three_users_kept)
  have f: "iam_finding (Suc (Suc 0)) [ascii ''alice'', ascii ''bob'']
             = ascii ''IAM '' @ [49324, 50857, 51088] @ ascii '' 2'' @ [47749]
               @ ascii '' '' @ [48156, 44204] @ ascii '': alice, bob''"
    by (simp add: iam_finding_def str_nat.simps ascii_def)
  from identity_user_filter [OF c u m, of "ascii ''global''"] f show ?thesis
    by (simp add: three_users_def)
qed

section \<open>The compute-instance check\<close>

text \<open>
  The check passes the filter on the four lifecycle states and reports the length of the
  list under the result key, which for this operation is the list of reservations; an empty
  or absent list gives no finding.
\<close>

lemma ec2_instances_check_counts_reservations:
  assumes "describe_instances session service_client region
             [Filters [(ascii ''instance-state-name'',
                        [ascii ''pending'', ascii ''running'', ascii ''stopping'',
                         ascii ''stopped''])]] = Inr response"
  shows "ec2_instances_check session resource_name service_client result_key region
           = (if get_or (response result_key) [] = [] then Inr None
              else Inr (Some (regional_finding resource_name
                               (length (get_or (response result_key) [])) region)))"
  using assms
  by (simp add: ec2_instances_check_def get_or_def split: option.split list.split)

text \<open>
  Claim C8, at an input where the code departs from it. The region holds exactly two
  instances in one of the four states, both running and started by one launch request, so
  the filtered listing is one reservation of two instances: the finding reports 1, the
  number of reservations. A region without instances gives no finding.
\<close>

theorem instances_counted_by_reservation:
  "provider_describe_instances one_launch_of_two
     [Filters [(ascii ''instance-state-name'',
                [ascii ''pending'', ascii ''running'', ascii ''stopping'', ascii ''stopped''])]]
     = [\<lparr>Instances = [\<lparr>InstanceId = ascii ''i-1'', StateName = ascii ''running''\<rparr>,
                       \<lparr>InstanceId = ascii ''i-2'', StateName = ascii ''running''\<rparr>]\<rparr>]
   \<and> check_single_service ec2_session (ascii ''EC2 Instances'')
        (ascii ''ec2'', ascii ''regional'', ascii ''describe_instances'', ascii ''Reservations'')
        (ascii ''us-east-1'')
       = Inr (Some (regional_finding (ascii ''EC2 Instances'') 1 (ascii ''us-east-1'')))
   \<and> check_single_service ec2_session (ascii ''EC2 Instances'')
        (ascii ''ec2'', ascii ''regional'', ascii ''describe_instances'', ascii ''Reservations'')
        (ascii ''ap-northeast-2'')
       = Inr None"
  by (simp add: check_single_service_def service_body_def ec2_instances_check_def
        ec2_session_def quiet_session_def provider_describe_instances_def
        one_launch_of_two_def ascii_def)


section \<open>The credential loader\<close>

lemma parse_lines_append:
  "parse_lines fp i (xs @ ys) =
     (fst (parse_lines fp i xs) @ fst (parse_lines fp (i + length xs) ys),
      snd (parse_lines fp i xs) @ snd (parse_lines fp (i + length xs) ys))"
proof (induction xs arbitrary: i)
  case Nil
  show ?case by simp
next
  case (Cons x xs)
  have "i + 1 + length xs = i + length (x # xs)" by simp
  with Cons [of "i + 1"] show ?case
    by (simp add: Let_def split: prod.split list.split)
qed

lemma parse_lines_one:
  "parse_lines fp i (raw # rest) =
     (if strip raw = [] \<or> startswith (strip raw) (ascii ''#'')
      then parse_lines fp (i + 1) rest
      else if length (split_on 9 (strip raw)) = 2
      then ((split_on 9 (strip raw) ! 0, split_on 9 (strip raw) ! 1, account_label (i + 1))
              # fst (parse_lines fp (i + 1) rest), snd (parse_lines fp (i + 1) rest))
      else (fst (parse_lines fp (i + 1) rest),
            MsgBadLine fp (i + 1) # snd (parse_lines fp (i + 1) rest)))"
proof -
  have two: "length xs = 2 \<longleftrightarrow> (\<exists>a b. xs = [a, b])" for xs :: "pystr list"
    by (cases xs; cases "tl xs"; cases "tl (tl xs)") auto
  show ?thesis
    by (cases "parse_lines fp (i + 1) rest")
       (auto simp: Let_def two split: list.split)
qed

text \<open>
  On the line as the file holds it: a line of white space only is blank once stripped, and
  a line that begins with \<open>#\<close> still does once stripped.
\<close>

lemma dropWhile_all: "list_all P xs \<Longrightarrow> dropWhile P xs = []"
  by (induction xs) auto

lemma strip_blank: "list_all isspace raw \<Longrightarrow> strip raw = []"
  by (simp add: strip_def dropWhile_all)

lemma strip_comment: "startswith (strip (35 # rest)) (ascii ''#'')"
proof -
  have h: "\<not> isspace 35" by (simp add: isspace_def)
  have "dropWhile isspace (rev rest @ [35]) \<noteq> []"
    using h by (simp add: dropWhile_append3 dropWhile_eq_Nil_conv)
  moreover have "\<exists>ys. dropWhile isspace (rev rest @ [35]) = ys @ [35] \<or> dropWhile isspace (rev rest @ [35]) = []"
    using h by (metis dropWhile_append dropWhile.simps(2) append_Nil)
  ultimately obtain ys where "dropWhile isspace (rev rest @ [35]) = ys @ [35]" by blast
  with h show ?thesis
    by (simp add: strip_def startswith_def ascii_def)
qed

text \<open>
  Claim C9, amended. When the file is absent the loader prints a line and ends the process
  with status 1. Otherwise every line of the file adds its own part to what the other lines
  give, and the load goes on after it: with \<open>line\<close> the line stripped of the white space
  around it and \<open>n\<close> the position of the line in the file counted from 1, skipped and
  reported lines counted too,
  \<^item> a line that is blank once stripped or then begins with \<open>#\<close> adds nothing;
  \<^item> a stripped line of exactly two tab-separated fields adds the record of the two fields
    whose display name is the label of \<open>n\<close>;
  \<^item> any other line adds a warning that names \<open>n\<close>, and no record.
\<close>

theorem loader_line_by_line:
  "parse_credentials file_path (Inl (FileNotFoundError m)) = ([MsgFileNotFound file_path], Exit 1)
   \<and> exit_status (Exit 1 :: credential list outcome) = 1
   \<and> parse_credentials file_path (Inr (before @ raw # after)) =
       (let line = strip raw;
            n = length before + 1;
            (creds1, out1) = parse_lines file_path 0 before;
            (creds2, out2) = parse_lines file_path n after
        in if line = [] \<or> startswith line (ascii ''#'')
           then (out1 @ out2, Return (creds1 @ creds2))
           else if length (split_on 9 line) = 2
           then (out1 @ out2,
                 Return (creds1
                           @ (split_on 9 line ! 0, split_on 9 line ! 1, account_label n)
                           # creds2))
           else (out1 @ MsgBadLine file_path n # out2, Return (creds1 @ creds2)))"
proof -
  have a: "parse_credentials file_path (Inl (FileNotFoundError m))
             = ([MsgFileNotFound file_path], Exit 1)"
    by (simp add: parse_credentials_def)
  have b: "parse_credentials file_path (Inr (before @ raw # after)) =
       (let line = strip raw;
            n = length before + 1;
            (creds1, out1) = parse_lines file_path 0 before;
            (creds2, out2) = parse_lines file_path n after
        in if line = [] \<or> startswith line (ascii ''#'')
           then (out1 @ out2, Return (creds1 @ creds2))
           else if length (split_on 9 line) = 2
           then (out1 @ out2,
                 Return (creds1
                           @ (split_on 9 line ! 0, split_on 9 line ! 1, account_label n)
                           # creds2))
           else (out1 @ MsgBadLine file_path n # out2, Return (creds1 @ creds2)))"
    by (simp add: parse_credentials_def parse_lines_append parse_lines_one Let_def
          split: prod.split del: parse_lines.simps(2))
  from a b show ?thesis by simp
qed

text \<open>
  The example file: the comment and the blank line are skipped, line 4 is reported, lines 3
  and 5 give records labelled 3 and 5.
\<close>

lemma demo_file_parsed:
  "parse_credentials (ascii ''accesskey.txt'') (Inr demo_file) =
     ([MsgBadLine (ascii ''accesskey.txt'') 4],
      Return [(ascii ''AKIA1'', ascii ''secret1'', [44228, 51221, 32, 51]),
              (ascii ''AKIA3'', ascii ''secret3'', [44228, 51221, 32, 53])])"
  by (simp add: parse_credentials_def demo_file_def strip_def isspace_def startswith_def
        account_label_def str_nat.simps ascii_def)


theorem loader_line_by_line_witness:
  "parse_credentials (ascii ''accesskey.txt'') (Inl (FileNotFoundError (ascii ''accesskey.txt'')))
     = ([MsgFileNotFound (ascii ''accesskey.txt'')], Exit 1)
   \<and> parse_credentials (ascii ''accesskey.txt'') (Inr demo_file) =
     ([MsgBadLine (ascii ''accesskey.txt'') 4],
      Return [(ascii ''AKIA1'', ascii ''secret1'', [44228, 51221, 32, 51]),
              (ascii ''AKIA3'', ascii ''secret3'', [44228, 51221, 32, 53])])"
  using loader_line_by_line [of "ascii ''accesskey.txt''" "ascii ''accesskey.txt''"
      "[ascii ''# lab accounts'' @ [10], [10], ascii ''AKIA1'' @ [9] @ ascii ''secret1'' @ [10]]"
      "ascii ''AKIA2 secret2'' @ [10]"
      "[ascii ''  AKIA3'' @ [9] @ ascii ''secret3 '' @ [9, 10]]"]
    demo_file_parsed
  by simp

text \<open>
  The claim as it was written fails in three files. The label is the number of the line,
  not of the record: after a comment line the first record is labelled 2. The test of the
  fields is on the stripped line: a line that holds three tab-separated fields as the file
  has it, the last one the line end, gives a record and no warning; a line that holds two,
  the second one a space and the line end, is reported.
\<close>

theorem loader_labels_by_line_and_tests_stripped:
  "parse_credentials (ascii ''accesskey.txt'') (Inr commented_file)
     = ([], Return [(ascii ''AK'', ascii ''SK'', [44228, 51221, 32, 50])])
   \<and> split_on 9 (hd trailing_tab_file) = [ascii ''AK'', ascii ''SK'', [10]]
   \<and> parse_credentials (ascii ''accesskey.txt'') (Inr trailing_tab_file)
     = ([], Return [(ascii ''AK'', ascii ''SK'', [44228, 51221, 32, 49])])
   \<and> split_on 9 (hd blank_secret_file) = [ascii ''AK'', [32, 10]]
   \<and> parse_credentials (ascii ''accesskey.txt'') (Inr blank_secret_file)
     = ([MsgBadLine (ascii ''accesskey.txt'') 1], Return [])"
  by (simp add: parse_credentials_def commented_file_def trailing_tab_file_def
        blank_secret_file_def strip_def isspace_def startswith_def account_label_def
        str_nat.simps ascii_def)


lemma accounts_started_append:
  "accounts_started (xs @ ys) = accounts_started xs @ accounts_started ys"
  by (induction xs rule: accounts_started.induct) simp_all

lemma accounts_started_parse_lines: "accounts_started (snd (parse_lines fp i lines)) = []"
proof (induction lines arbitrary: i)
  case Nil
  show ?case by simp
next
  case (Cons raw rest)
  from Cons [of "i + 1"] show ?case
    by (simp add: parse_lines_one del: parse_lines.simps(2))
qed

lemma no_records_of_unusable_lines:
  "list_all (\<lambda>raw. strip raw = [] \<or> startswith (strip raw) (ascii ''#'')
                    \<or> length (split_on 9 (strip raw)) \<noteq> 2) lines \<Longrightarrow>
   fst (parse_lines fp i lines) = []"
proof (induction lines arbitrary: i)
  case Nil
  show ?case by simp
next
  case (Cons raw rest)
  from Cons.prems have "fst (parse_lines fp (i + 1) rest) = []"
    by (intro Cons.IH) simp
  with Cons.prems show ?case
    by (auto simp: parse_lines_one simp del: parse_lines.simps(2))
qed

text \<open>
  Claim C10, amended. When the file can be read and the loader yields no record, \<open>main\<close>
  prints the warnings of the loader and the notice, returns normally (exit status 0) and
  starts no scan. When the file is absent the loader ends the process with status 1, and
  for a file that can be read the loader always returns. A file that cannot be opened for
  another reason ends the process too: the exception is not caught.
\<close>

theorem no_records_exit_zero:
  "(accesskey_file world = Inr lines
      \<and> fst (parse_lines (ascii ''accesskey.txt'') 0 lines) = []
    \<longrightarrow> main world = (MsgScriptStart # snd (parse_lines (ascii ''accesskey.txt'') 0 lines)
                        @ [MsgNoAccounts], Return ())
        \<and> exit_status (snd (main world)) = 0
        \<and> accounts_started (fst (main world)) = [])
   \<and> (accesskey_file world = Inl (FileNotFoundError m)
    \<longrightarrow> main world = ([MsgScriptStart, MsgFileNotFound (ascii ''accesskey.txt'')], Exit 1)
        \<and> exit_status (snd (main world)) = 1)
   \<and> (accesskey_file world = Inr lines
    \<longrightarrow> (\<exists>creds. snd (parse_credentials (ascii ''accesskey.txt'') (accesskey_file world))
                  = Return creds))
   \<and> (accesskey_file world = Inl e \<and> \<not> is_FileNotFoundError e
    \<longrightarrow> main world = ([MsgScriptStart], Raise e)
        \<and> exit_status (snd (main world)) = 1)"
proof -
  have a: "main world = (MsgScriptStart # snd (parse_lines (ascii ''accesskey.txt'') 0 lines)
                        @ [MsgNoAccounts], Return ())"
    if "accesskey_file world = Inr lines"
       "fst (parse_lines (ascii ''accesskey.txt'') 0 lines) = []"
  proof -
    obtain creds out where p: "parse_lines (ascii ''accesskey.txt'') 0 lines = (creds, out)"
      by fastforce
    with that(2) have "creds = []" by simp
    with p that(1) show ?thesis
      by (simp add: main_def parse_credentials_def)
  qed
  have b: "main world = ([MsgScriptStart, MsgFileNotFound (ascii ''accesskey.txt'')], Exit 1)"
    if "accesskey_file world = Inl (FileNotFoundError m)"
    using that by (simp add: main_def parse_credentials_def)
  have c: "\<exists>creds. snd (parse_credentials (ascii ''accesskey.txt'') (accesskey_file world))
                  = Return creds"
    if "accesskey_file world = Inr lines"
    using that by (simp add: parse_credentials_def split: prod.splits)
  have d: "main world = ([MsgScriptStart], Raise e)"
    if "accesskey_file world = Inl e" "\<not> is_FileNotFoundError e"
    using that by (simp add: main_def parse_credentials_def)
  from a b c d show ?thesis
    by (auto simp: accounts_started_append accounts_started_parse_lines)
qed

text \<open>A file of a comment, a blank line and a line of one field.\<close>

lemma empty_file_parsed:
  "parse_lines (ascii ''accesskey.txt'') 0 empty_file
     = ([], [MsgBadLine (ascii ''accesskey.txt'') 3])"
  by (simp add: empty_file_def strip_def isspace_def startswith_def ascii_def)

theorem no_records_exit_zero_witness:
  "accesskey_file empty_world = Inr empty_file
   \<and> fst (parse_lines (ascii ''accesskey.txt'') 0 empty_file) = []
   \<and> main empty_world
       = ([MsgScriptStart, MsgBadLine (ascii ''accesskey.txt'') 3, MsgNoAccounts], Return ())
   \<and> exit_status (snd (main empty_world)) = 0
   \<and> accounts_started (fst (main empty_world)) = []"
proof -
  have f: "accesskey_file empty_world = Inr empty_file"
    by (simp add: empty_world_def)
  from no_records_exit_zero [of empty_world empty_file] f empty_file_parsed
  show ?thesis by simp
qed

text \<open>
  The claim as it was written, that only the absence of the file ends the process with a
  status that is not 0, fails for a file that exists and cannot be opened.
\<close>

theorem unreadable_file_nonzero_exit:
  "accesskey_file locked_world = Inl (OtherError (ascii ''PermissionError''))
   \<and> \<not> is_FileNotFoundError (OtherError (ascii ''PermissionError''))
   \<and> main locked_world = ([MsgScriptStart], Raise (OtherError (ascii ''PermissionError'')))
   \<and> exit_status (snd (main locked_world)) = 1"
  by (simp add: main_def parse_credentials_def locked_world_def)


section \<open>Failure of region discovery\<close>

text \<open>
  A \<open>ClientError\<close> of the region listing: two lines are printed, the scan of the account
  is abandoned before any task is submitted, and the loop of \<open>main\<close> goes on with the
  next account.
\<close>

lemma region_discovery_client_error:
  assumes "boto3_Session world access_key secret_key = Inr session"
      and "client session (ascii ''ec2'') (ascii ''us-east-1'') = None"
      and "describe_regions session (ascii ''ec2'') (ascii ''us-east-1'')
             [Filters [(ascii ''opt-in-status'',
                        [ascii ''opted-in'', ascii ''opt-in-not-required''])]]
           = Inl (ClientError m)"
  shows "check_aws_account world access_key secret_key account_name =
           ([MsgAccountStart account_name (take 5 access_key), MsgRegionError (ClientError m),
             MsgRegionHint, MsgAccountAborted account_name], Inr ())"
    and "scan_accounts world ((access_key, secret_key, account_name) # creds) =
           ([MsgAccountStart account_name (take 5 access_key), MsgRegionError (ClientError m),
             MsgRegionHint, MsgAccountAborted account_name] @ fst (scan_accounts world creds),
            snd (scan_accounts world creds))"
proof -
  from assms(2,3) have "get_enabled_regions session =
      ([MsgRegionError (ClientError m), MsgRegionHint], Inr None)"
    by (simp add: get_enabled_regions_def regions_except_def)
  with assms(1) show c: "check_aws_account world access_key secret_key account_name =
           ([MsgAccountStart account_name (take 5 access_key), MsgRegionError (ClientError m),
             MsgRegionHint, MsgAccountAborted account_name], Inr ())"
    by (simp add: check_aws_account_def)
  show "scan_accounts world ((access_key, secret_key, account_name) # creds) =
           ([MsgAccountStart account_name (take 5 access_key), MsgRegionError (ClientError m),
             MsgRegionHint, MsgAccountAborted account_name] @ fst (scan_accounts world creds),
            snd (scan_accounts world creds))"
    by (simp add: c split: prod.split)
qed

lemma service_body_quiet: "service_body quiet_session resource_name config region = Inr None"
  by (cases config)
     (simp add: service_body_def iam_users_check_def cloudfront_check_def kms_check_def
        listing_check_def ec2_instances_check_def quiet_session_def get_or_def
      split: if_split)

lemma run_task_quiet: "run_task quiet_session t = Inr None"
  by (cases t) (simp add: check_single_service_def service_body_quiet)

lemma collect_nothing: "collect (map (\<lambda>t. Inr None) ts) = ([], [])"
  by (induction ts) simp_all

lemma quiet_account_clean:
  assumes "boto3_Session world access_key secret_key = Inr quiet_session"
      and "as_completed world = (\<lambda>futures. futures)"
  shows "check_aws_account world access_key secret_key account_name =
           ([MsgAccountStart account_name (take 5 access_key), MsgClean,
             MsgAccountDone account_name], Inr ())"
proof -
  have r: "get_enabled_regions quiet_session = ([], Inr (Some [ascii ''us-east-1'']))"
    by (simp add: get_enabled_regions_def quiet_session_def)
  have q: "map (run_task quiet_session) ts = map (\<lambda>t. Inr None) ts" for ts
    by (simp add: run_task_quiet)
  from assms r show ?thesis
    by (simp add: check_aws_account_def q collect_nothing print_report_def
        del: run_task.simps)
qed

lemma two_account_file_parsed:
  "parse_credentials (ascii ''accesskey.txt'') (Inr two_account_file) =
     ([], Return [(ascii ''AKIA1'', ascii ''secret1'', [44228, 51221, 32, 49]),
                  (ascii ''AKIA2'', ascii ''secret2'', [44228, 51221, 32, 50])])"
  by (simp add: parse_credentials_def two_account_file_def strip_def isspace_def
        startswith_def account_label_def str_nat.simps ascii_def)

lemma denied_account_then_next:
  "main denied_world =
     ([MsgScriptStart, MsgTotal 2,
       MsgAccountStart ([44228, 51221, 32, 49]) (ascii ''AKIA1''),
       MsgRegionError (ClientError (ascii ''AuthFailure'')), MsgRegionHint,
       MsgAccountAborted ([44228, 51221, 32, 49]),
       MsgAccountStart ([44228, 51221, 32, 50]) (ascii ''AKIA2''), MsgClean,
       MsgAccountDone ([44228, 51221, 32, 50])],
      Return ())"
proof -
  have s1: "boto3_Session denied_world (ascii ''AKIA1'') (ascii ''secret1'') = Inr denied_session"
    by (simp add: denied_world_def)
  have c1: "client denied_session (ascii ''ec2'') (ascii ''us-east-1'') = None"
    by (simp add: denied_session_def quiet_session_def)
  have d1: "describe_regions denied_session (ascii ''ec2'') (ascii ''us-east-1'')
             [Filters [(ascii ''opt-in-status'',
                        [ascii ''opted-in'', ascii ''opt-in-not-required''])]]
           = Inl (ClientError (ascii ''AuthFailure''))"
    by (simp add: denied_session_def quiet_session_def)
  have s2: "boto3_Session denied_world (ascii ''AKIA2'') (ascii ''secret2'') = Inr quiet_session"
    by (simp add: denied_world_def ascii_def)
  have a2: "as_completed denied_world = (\<lambda>futures. futures)"
    by (simp add: denied_world_def)
  have f: "accesskey_file denied_world = Inr two_account_file"
    by (simp add: denied_world_def)
  have t: "take 5 (ascii ''AKIA1'') = ascii ''AKIA1''" "take 5 (ascii ''AKIA2'') = ascii ''AKIA2''"
    by (simp_all add: ascii_def)
  show ?thesis
    by (simp add: main_def f two_account_file_parsed
          region_discovery_client_error(1) [OF s1 c1 d1]
          quiet_account_clean [OF s2 a2] t)
qed


text \<open>
  Claim C7, at an input where the code departs from it. The region listing of the first of
  two accounts raises a \<open>BotoCoreError\<close> (the endpoint cannot be reached).
  \<open>get_enabled_regions\<close> catches \<open>ClientError\<close> only, and neither
  \<open>check_aws_account\<close> nor \<open>main\<close> catches anything around it: the exception ends the
  process with status 1, and the scan of the second account is never started.
\<close>

theorem region_discovery_connection_error_ends_run:
  "main unreachable_world
     = ([MsgScriptStart, MsgTotal 2, MsgAccountStart [44228, 51221, 32, 49] (ascii ''AKIA1'')],
        Raise (BotoCoreError (ascii ''EndpointConnectionError'')))
   \<and> exit_status (snd (main unreachable_world)) = 1
   \<and> accounts_started (fst (main unreachable_world)) = [[44228, 51221, 32, 49]]"
  by (simp add: main_def parse_credentials_def unreachable_world_def two_account_file_def
        check_aws_account_def get_enabled_regions_def regions_except_def
        unreachable_session_def quiet_session_def strip_def isspace_def startswith_def
        account_label_def str_nat.simps ascii_def)


end
